theory Spec2Isabelle
  imports Complex_Main
begin

section \<open>Numbers of the notebook\<close>

text \<open>
  The notebook \<^verbatim>\<open>auto_param_cal.ipynb\<close> computes with numpy \<^verbatim>\<open>float64\<close> values.
  A value is modelled as a real number or one of the three special values of the
  format. In the cells as first modelled the finite values are idealised (no rounding,
  no overflow, no signed zero); the special values are kept, because numpy does not
  raise on a division by zero: it returns \<^verbatim>\<open>inf\<close> or \<^verbatim>\<open>nan\<close> (with a RuntimeWarning) and
  the computation goes on. The section on rounding gives the velocity cell and the
  Doppler cell a second reading, in which every operation rounds its result to the
  format.
\<close>

datatype npfloat = Fin real | PInf | NInf | NaN

fun np_neg :: "npfloat \<Rightarrow> npfloat" where
  "np_neg (Fin a) = Fin (- a)"
| "np_neg PInf = NInf"
| "np_neg NInf = PInf"
| "np_neg NaN = NaN"

fun np_add :: "npfloat \<Rightarrow> npfloat \<Rightarrow> npfloat" where
  "np_add (Fin a) (Fin b) = Fin (a + b)"
| "np_add NaN _ = NaN"
| "np_add _ NaN = NaN"
| "np_add PInf NInf = NaN"
| "np_add NInf PInf = NaN"
| "np_add PInf _ = PInf"
| "np_add _ PInf = PInf"
| "np_add NInf _ = NInf"
| "np_add _ NInf = NInf"

definition np_sub :: "npfloat \<Rightarrow> npfloat \<Rightarrow> npfloat" where
  "np_sub a b = np_add a (np_neg b)"

text \<open>The sign of a product or quotient one of whose operands is infinite.\<close>

definition signed_inf :: "bool \<Rightarrow> npfloat" where
  "signed_inf positive = (if positive then PInf else NInf)"

fun np_mul :: "npfloat \<Rightarrow> npfloat \<Rightarrow> npfloat" where
  "np_mul (Fin a) (Fin b) = Fin (a * b)"
| "np_mul NaN _ = NaN"
| "np_mul _ NaN = NaN"
| "np_mul (Fin a) PInf = (if a = 0 then NaN else signed_inf (0 < a))"
| "np_mul (Fin a) NInf = (if a = 0 then NaN else signed_inf (a < 0))"
| "np_mul PInf (Fin b) = (if b = 0 then NaN else signed_inf (0 < b))"
| "np_mul NInf (Fin b) = (if b = 0 then NaN else signed_inf (b < 0))"
| "np_mul PInf PInf = PInf"
| "np_mul NInf NInf = PInf"
| "np_mul PInf NInf = NInf"
| "np_mul NInf PInf = NInf"

text \<open>
  Division. A finite value divided by zero is \<^verbatim>\<open>nan\<close> when it is zero itself and an
  infinity of its own sign otherwise (the zero divisor counts as \<^verbatim>\<open>+0.0\<close>).
\<close>

fun np_div :: "npfloat \<Rightarrow> npfloat \<Rightarrow> npfloat" where
  "np_div (Fin a) (Fin b) =
     (if b = 0 then (if a = 0 then NaN else signed_inf (0 < a)) else Fin (a / b))"
| "np_div NaN _ = NaN"
| "np_div _ NaN = NaN"
| "np_div (Fin a) PInf = Fin 0"
| "np_div (Fin a) NInf = Fin 0"
| "np_div PInf (Fin b) = signed_inf (0 \<le> b)"
| "np_div NInf (Fin b) = signed_inf (b < 0)"
| "np_div PInf PInf = NaN"
| "np_div PInf NInf = NaN"
| "np_div NInf PInf = NaN"
| "np_div NInf NInf = NaN"

fun np_abs :: "npfloat \<Rightarrow> npfloat" where
  "np_abs (Fin a) = Fin \<bar>a\<bar>"
| "np_abs PInf = PInf"
| "np_abs NInf = PInf"
| "np_abs NaN = NaN"

fun np_sqrt :: "npfloat \<Rightarrow> npfloat" where
  "np_sqrt (Fin a) = (if a < 0 then NaN else Fin (sqrt a))"
| "np_sqrt PInf = PInf"
| "np_sqrt NInf = NaN"
| "np_sqrt NaN = NaN"

text \<open>\<^verbatim>\<open>x**2\<close> on a float is the product of \<^verbatim>\<open>x\<close> with itself.\<close>

definition np_pow2 :: "npfloat \<Rightarrow> npfloat" where
  "np_pow2 a = np_mul a a"

subsection \<open>Arrays of three components\<close>

text \<open>
  Every array of the notebook is built as \<^verbatim>\<open>np.array([a[0], a[1], a[2]])\<close> or by an
  elementwise operation on such arrays: a triple. A scalar operand is broadcast.
\<close>

type_synonym ndarray = "npfloat \<times> npfloat \<times> npfloat"

fun arr_sub :: "ndarray \<Rightarrow> ndarray \<Rightarrow> ndarray" where
  "arr_sub (a0, a1, a2) (b0, b1, b2) = (np_sub a0 b0, np_sub a1 b1, np_sub a2 b2)"

fun arr_mul :: "ndarray \<Rightarrow> ndarray \<Rightarrow> ndarray" where
  "arr_mul (a0, a1, a2) (b0, b1, b2) = (np_mul a0 b0, np_mul a1 b1, np_mul a2 b2)"

fun arr_abs :: "ndarray \<Rightarrow> ndarray" where
  "arr_abs (a0, a1, a2) = (np_abs a0, np_abs a1, np_abs a2)"

fun arr_pow2 :: "ndarray \<Rightarrow> ndarray" where
  "arr_pow2 (a0, a1, a2) = (np_pow2 a0, np_pow2 a1, np_pow2 a2)"

fun arr_div_scalar :: "ndarray \<Rightarrow> npfloat \<Rightarrow> ndarray" where
  "arr_div_scalar (a0, a1, a2) s = (np_div a0 s, np_div a1 s, np_div a2 s)"

fun arr_mul_scalar :: "ndarray \<Rightarrow> npfloat \<Rightarrow> ndarray" where
  "arr_mul_scalar (a0, a1, a2) s = (np_mul a0 s, np_mul a1 s, np_mul a2 s)"

fun np_sum :: "ndarray \<Rightarrow> npfloat" where
  "np_sum (a0, a1, a2) = np_add (np_add a0 a1) a2"

subsection \<open>Points and vectors over the reals\<close>

text \<open>
  The mathematical objects the specification speaks about: a Cartesian point or a
  vector with three real coordinates, its Euclidean norm and the dot product.
\<close>

type_synonym vec3 = "real \<times> real \<times> real"

fun arr :: "vec3 \<Rightarrow> ndarray" where
  "arr (x, y, z) = (Fin x, Fin y, Fin z)"

fun vsub :: "vec3 \<Rightarrow> vec3 \<Rightarrow> vec3" where
  "vsub (a0, a1, a2) (b0, b1, b2) = (a0 - b0, a1 - b1, a2 - b2)"

fun vadd :: "vec3 \<Rightarrow> vec3 \<Rightarrow> vec3" where
  "vadd (a0, a1, a2) (b0, b1, b2) = (a0 + b0, a1 + b1, a2 + b2)"

fun vscale :: "real \<Rightarrow> vec3 \<Rightarrow> vec3" where
  "vscale k (a0, a1, a2) = (k * a0, k * a1, k * a2)"

fun vdiv :: "vec3 \<Rightarrow> real \<Rightarrow> vec3" where
  "vdiv (a0, a1, a2) d = (a0 / d, a1 / d, a2 / d)"

fun dot :: "vec3 \<Rightarrow> vec3 \<Rightarrow> real" where
  "dot (a0, a1, a2) (b0, b1, b2) = a0 * b0 + a1 * b1 + a2 * b2"

fun norm3 :: "vec3 \<Rightarrow> real" where
  "norm3 (a0, a1, a2) = sqrt (a0\<^sup>2 + a1\<^sup>2 + a2\<^sup>2)"

definition normalize3 :: "vec3 \<Rightarrow> vec3" where
  "normalize3 d = vdiv d (norm3 d)"

text \<open>A float that is neither an infinity nor \<^verbatim>\<open>nan\<close>.\<close>

fun is_finite :: "npfloat \<Rightarrow> bool" where
  "is_finite (Fin a) = True"
| "is_finite PInf = False"
| "is_finite NInf = False"
| "is_finite NaN = False"

section \<open>Bistatic range (second code cell)\<close>

text \<open>
  \<^verbatim>\<open>L  = np.sqrt(np.sum(np.abs(radar_ecef-ioo_ecef)**2))\<close>
  \<^verbatim>\<open>Rt = np.sqrt(np.sum(np.abs(target_ecef-ioo_ecef)**2))\<close>
  \<^verbatim>\<open>Rr = np.sqrt(np.sum(np.abs(target_ecef-radar_ecef)**2))\<close>
  \<^verbatim>\<open>Rb = Rt+Rr-L\<close>
\<close>

definition L :: "ndarray \<Rightarrow> ndarray \<Rightarrow> npfloat" where
  "L radar_ecef ioo_ecef = np_sqrt (np_sum (arr_pow2 (arr_abs (arr_sub radar_ecef ioo_ecef))))"

definition Rt :: "ndarray \<Rightarrow> ndarray \<Rightarrow> npfloat" where
  "Rt target_ecef ioo_ecef = np_sqrt (np_sum (arr_pow2 (arr_abs (arr_sub target_ecef ioo_ecef))))"

definition Rr :: "ndarray \<Rightarrow> ndarray \<Rightarrow> npfloat" where
  "Rr target_ecef radar_ecef =
     np_sqrt (np_sum (arr_pow2 (arr_abs (arr_sub target_ecef radar_ecef))))"

definition Rb :: "ndarray \<Rightarrow> ndarray \<Rightarrow> ndarray \<Rightarrow> npfloat" where
  "Rb ioo_ecef radar_ecef target_ecef =
     np_sub (np_add (Rt target_ecef ioo_ecef) (Rr target_ecef radar_ecef))
       (L radar_ecef ioo_ecef)"

section \<open>The geodesy library\<close>

text \<open>
  The notebook calls two functions of the external package pygeodesy: the forward
  transform of an ECEF converter (latitude, longitude, height to Cartesian
  coordinates) and the destination of a \<^verbatim>\<open>LatLon\<close> point (the point reached after a
  distance on a bearing). Their code is not part of the repository: they are taken as
  parameters, each depending on the datum of the object it is called on. A call is
  taken to return, with finite numbers: the exceptions of the package on coordinates
  out of range are not modelled.
\<close>

datatype Datum = Sphere | WGS84

record pygeodesy =
  forward :: "Datum \<Rightarrow> real \<Rightarrow> real \<Rightarrow> real \<Rightarrow> vec3"
  destination :: "Datum \<Rightarrow> real \<Rightarrow> real \<Rightarrow> real \<Rightarrow> real \<Rightarrow> real \<times> real"

record EcefYou =
  converter_datum :: Datum

record LatLon =
  lat :: real
  lon :: real
  datum :: Datum

text \<open>\<^verbatim>\<open>ecef_converter = ecef.EcefYou(Datums.Sphere)\<close>\<close>

definition ecef_converter :: EcefYou where
  "ecef_converter = \<lparr>converter_datum = Sphere\<rparr>"

text \<open>
  \<^verbatim>\<open>LatLon(target_lat, target_lon)\<close>, the class imported from
  \<^verbatim>\<open>pygeodesy.ellipsoidalVincenty\<close>: the call gives no datum, and the ellipsoidal
  classes of the package then take their default, \<^verbatim>\<open>Datums.WGS84\<close>.
\<close>

definition LatLon_new :: "real \<Rightarrow> real \<Rightarrow> LatLon" where
  "LatLon_new la lo = \<lparr>lat = la, lon = lo, datum = WGS84\<rparr>"

text \<open>\<^verbatim>\<open>self.destination(distance, bearing)\<close>: a point of the same class and datum.\<close>

definition LatLon_destination :: "pygeodesy \<Rightarrow> LatLon \<Rightarrow> real \<Rightarrow> real \<Rightarrow> LatLon" where
  "LatLon_destination lib self distance bearing =
     (case destination lib (datum self) (lat self) (lon self) distance bearing of
        (la, lo) \<Rightarrow> \<lparr>lat = la, lon = lo, datum = datum self\<rparr>)"

text \<open>
  \<^verbatim>\<open>raw = ecef_converter.forward(lat, lon, ele)\<close> followed by
  \<^verbatim>\<open>np.array([raw[0], raw[1], raw[2]])\<close>.
\<close>

definition ecef_array :: "pygeodesy \<Rightarrow> real \<Rightarrow> real \<Rightarrow> real \<Rightarrow> ndarray" where
  "ecef_array lib la lo h = arr (forward lib (converter_datum ecef_converter) la lo h)"

section \<open>Velocity vector (third code cell)\<close>

text \<open>
  \<^verbatim>\<open>target_latlon       = LatLon(target_lat, target_lon)\<close>
  \<^verbatim>\<open>speed_vector_latlon = target_latlon.destination(1, target_dir)\<close>
  \<^verbatim>\<open>speed_vector_ecef   = ecef_converter.forward(speed_vector_latlon.lat,
                                             speed_vector_latlon.lon, target_ele)\<close>
  \<^verbatim>\<open>speed_vector        = speed_vector_ecef-target_ecef\<close>
  \<^verbatim>\<open>speed_vector       /= np.sqrt(np.sum(np.abs(speed_vector)**2))\<close>
  \<^verbatim>\<open>speed_vector       *= target_speed\<close>

  There is no test of \<^verbatim>\<open>target_speed\<close>: the division is executed for every speed.
\<close>

definition speed_vector_latlon :: "pygeodesy \<Rightarrow> real \<Rightarrow> real \<Rightarrow> real \<Rightarrow> LatLon" where
  "speed_vector_latlon lib la lo dir = LatLon_destination lib (LatLon_new la lo) 1 dir"

definition speed_vector_ecef :: "pygeodesy \<Rightarrow> real \<Rightarrow> real \<Rightarrow> real \<Rightarrow> real \<Rightarrow> ndarray" where
  "speed_vector_ecef lib la lo h dir =
     ecef_array lib (lat (speed_vector_latlon lib la lo dir))
       (lon (speed_vector_latlon lib la lo dir)) h"

definition speed_vector ::
  "pygeodesy \<Rightarrow> real \<Rightarrow> real \<Rightarrow> real \<Rightarrow> real \<Rightarrow> real \<Rightarrow> ndarray" where
  "speed_vector lib la lo h dir speed =
     (let v0 = arr_sub (speed_vector_ecef lib la lo h dir) (ecef_array lib la lo h);
          v1 = arr_div_scalar v0 (np_sqrt (np_sum (arr_pow2 (arr_abs v0))))
      in arr_mul_scalar v1 (Fin speed))"

section \<open>Bistatic Doppler (fourth code cell)\<close>

text \<open>
  \<^verbatim>\<open>target_to_ioo_vector   = (target_ecef-ioo_ecef)/Rt\<close>
  \<^verbatim>\<open>target_to_radar_vector = (target_ecef-radar_ecef)/Rr\<close>
  \<^verbatim>\<open>fD = -1*((np.sum(speed_vector*target_to_ioo_vector)) +
            (np.sum(speed_vector*target_to_radar_vector)))/wavelength\<close>

  The velocity, the three points, the two distances and the wavelength are the cell's
  inputs (\<open>dt\<close> and \<open>dr\<close> stand for the notebook's variables \<^verbatim>\<open>Rt\<close> and \<^verbatim>\<open>Rr\<close>).
\<close>

definition target_to_ioo_vector :: "ndarray \<Rightarrow> ndarray \<Rightarrow> npfloat \<Rightarrow> ndarray" where
  "target_to_ioo_vector target_ecef ioo_ecef dt = arr_div_scalar (arr_sub target_ecef ioo_ecef) dt"

definition target_to_radar_vector :: "ndarray \<Rightarrow> ndarray \<Rightarrow> npfloat \<Rightarrow> ndarray" where
  "target_to_radar_vector target_ecef radar_ecef dr =
     arr_div_scalar (arr_sub target_ecef radar_ecef) dr"

definition fD ::
  "ndarray \<Rightarrow> ndarray \<Rightarrow> ndarray \<Rightarrow> ndarray \<Rightarrow> npfloat \<Rightarrow> npfloat \<Rightarrow> npfloat \<Rightarrow> npfloat" where
  "fD v target_ecef ioo_ecef radar_ecef dt dr wl =
     np_div
       (np_mul (Fin (- 1))
          (np_add (np_sum (arr_mul v (target_to_ioo_vector target_ecef ioo_ecef dt)))
                  (np_sum (arr_mul v (target_to_radar_vector target_ecef radar_ecef dr)))))
       wl"

text \<open>
  The error kinds of the specification. No statement of the cells raises and no operand
  is tested, so a run of the Doppler cell as an operation that may fail always returns.
\<close>

datatype error = InvalidCoordinate | DegenerateGeometry | InvalidParameter

definition computeDoppler ::
  "ndarray \<Rightarrow> ndarray \<Rightarrow> ndarray \<Rightarrow> ndarray \<Rightarrow> npfloat \<Rightarrow> npfloat \<Rightarrow> npfloat \<Rightarrow> error + npfloat" where
  "computeDoppler v target_ecef ioo_ecef radar_ecef dt dr wl =
     Inr (fD v target_ecef ioo_ecef radar_ecef dt dr wl)"

section \<open>The notebook from its inputs\<close>

record scenario =
  target_lat :: real
  target_lon :: real
  target_ele :: real
  ioo_lat :: real
  ioo_lon :: real
  ioo_ele :: real
  radar_lat :: real
  radar_lon :: real
  radar_ele :: real
  target_dir :: real
  target_speed :: real
  wavelength :: real

definition target_ecef :: "pygeodesy \<Rightarrow> scenario \<Rightarrow> ndarray" where
  "target_ecef lib s = ecef_array lib (target_lat s) (target_lon s) (target_ele s)"

definition ioo_ecef :: "pygeodesy \<Rightarrow> scenario \<Rightarrow> ndarray" where
  "ioo_ecef lib s = ecef_array lib (ioo_lat s) (ioo_lon s) (ioo_ele s)"

definition radar_ecef :: "pygeodesy \<Rightarrow> scenario \<Rightarrow> ndarray" where
  "radar_ecef lib s = ecef_array lib (radar_lat s) (radar_lon s) (radar_ele s)"

definition notebook_speed_vector :: "pygeodesy \<Rightarrow> scenario \<Rightarrow> ndarray" where
  "notebook_speed_vector lib s =
     speed_vector lib (target_lat s) (target_lon s) (target_ele s) (target_dir s) (target_speed s)"

definition notebook_fD :: "pygeodesy \<Rightarrow> scenario \<Rightarrow> error + npfloat" where
  "notebook_fD lib s =
     computeDoppler (notebook_speed_vector lib s) (target_ecef lib s) (ioo_ecef lib s)
       (radar_ecef lib s)
       (Rt (target_ecef lib s) (ioo_ecef lib s)) (Rr (target_ecef lib s) (radar_ecef lib s))
       (Fin (wavelength s))"

text \<open>
  A flat chart, the simplest pair of library functions: coordinates in metres, the
  bearing clockwise from the second axis. It serves to evaluate the notebook on
  concrete inputs.
\<close>

definition chart :: pygeodesy where
  "chart = \<lparr>forward = (\<lambda>d la lo h. (lo, la, h)),
            destination = (\<lambda>d la lo dist b.
               (la + dist * cos (b * pi / 180), lo + dist * sin (b * pi / 180)))\<rparr>"

text \<open>Two inputs for the flat chart: a target that stands still, away from the
  illuminator and the receiver, and the same target at the illuminator's position.\<close>

definition standing_target :: scenario where
  "standing_target =
     \<lparr>target_lat = 0, target_lon = 0, target_ele = 0, ioo_lat = 0, ioo_lon = 3, ioo_ele = 0,
      radar_lat = 4, radar_lon = 0, radar_ele = 0, target_dir = 0, target_speed = 0,
      wavelength = 1 / 2\<rparr>"

definition standing_target_at_ioo :: scenario where
  "standing_target_at_ioo = standing_target\<lparr>ioo_lon := 0\<rparr>"

text \<open>
  A second flat chart, whose destination function moves a point by a fixed displacement
  per metre, whatever the bearing: \<open>north\<close> along the second axis, \<open>east\<close> along the
  first. With the displacement 0 the probe point of the velocity cell is the target
  itself.
\<close>

definition course_chart :: "real \<Rightarrow> real \<Rightarrow> pygeodesy" where
  "course_chart north east =
     \<lparr>forward = (\<lambda>d la lo h. (lo, la, h)),
      destination = (\<lambda>d la lo dist b. (la + dist * north, lo + dist * east))\<rparr>"

text \<open>The standing target, with the wavelength 0.\<close>

definition zero_wavelength :: scenario where
  "zero_wavelength = standing_target\<lparr>wavelength := 0\<rparr>"

section \<open>Rounding to float64\<close>

text \<open>
  The finite values of \<^verbatim>\<open>float64\<close> are the reals \<open>m * 2 ^ e\<close> with an integer \<open>m\<close> of at
  most 53 bits. An arithmetic operation of numpy returns the value of the format that
  is nearest to the exact result, and of two nearest values the one with the even
  \<open>m\<close> (IEEE 754, round to nearest, ties to even). \<open>round_half_even\<close> rounds a real to an
  integer in that way.
\<close>

definition round_half_even :: "real \<Rightarrow> int" where
  "round_half_even y =
     (if y - of_int \<lfloor>y\<rfloor> < 1 / 2 then \<lfloor>y\<rfloor>
      else if 1 / 2 < y - of_int \<lfloor>y\<rfloor> then \<lfloor>y\<rfloor> + 1
      else if even \<lfloor>y\<rfloor> then \<lfloor>y\<rfloor> else \<lfloor>y\<rfloor> + 1)"

text \<open>
  The value of the format nearest to \<open>x\<close>: \<open>x\<close> is scaled by the power of two that
  brings its absolute value into the interval from \<open>2 ^ 52\<close> to \<open>2 ^ 53\<close>, rounded to
  an integer and scaled back. The exponent is not bounded: overflow to \<^verbatim>\<open>inf\<close> and
  gradual underflow are not modelled.
\<close>

definition float64 :: "real \<Rightarrow> real" where
  "float64 x =
     (if x = 0 then 0
      else of_int (round_half_even (x / 2 powr of_int (\<lfloor>log 2 \<bar>x\<bar>\<rfloor> - 52))) *
             2 powr of_int (\<lfloor>log 2 \<bar>x\<bar>\<rfloor> - 52))"

text \<open>
  The least and the greatest factor by which a rounding changes a value: one minus and
  one plus the unit roundoff \<open>2 ^ -53\<close>.
\<close>

definition l64 :: real where
  "l64 = 1 - 1 / 2 ^ 53"

definition h64 :: real where
  "h64 = 1 + 1 / 2 ^ 53"

text \<open>
  The result of an operation, rounded. The rounding \<open>rnd\<close> is a parameter of the
  rounded cells (\<open>float64\<close> for the notebook); the special values are left as they
  are.
\<close>

fun rounded :: "(real \<Rightarrow> real) \<Rightarrow> npfloat \<Rightarrow> npfloat" where
  "rounded rnd (Fin a) = Fin (rnd a)"
| "rounded rnd PInf = PInf"
| "rounded rnd NInf = NInf"
| "rounded rnd NaN = NaN"

fun arr_rounded :: "(real \<Rightarrow> real) \<Rightarrow> ndarray \<Rightarrow> ndarray" where
  "arr_rounded rnd (a0, a1, a2) = (rounded rnd a0, rounded rnd a1, rounded rnd a2)"

text \<open>\<^verbatim>\<open>np.sum\<close> adds the three components from left to right.\<close>

fun np_sum_rounded :: "(real \<Rightarrow> real) \<Rightarrow> ndarray \<Rightarrow> npfloat" where
  "np_sum_rounded rnd (a0, a1, a2) = rounded rnd (np_add (rounded rnd (np_add a0 a1)) a2)"

text \<open>
  \<^verbatim>\<open>np.sqrt(np.sum(np.abs(speed_vector)**2))\<close>, the square, the sum and the square root
  rounded (\<^verbatim>\<open>np.abs\<close> is exact).
\<close>

definition norm_cell_rounded :: "(real \<Rightarrow> real) \<Rightarrow> ndarray \<Rightarrow> npfloat" where
  "norm_cell_rounded rnd v =
     rounded rnd (np_sqrt (np_sum_rounded rnd (arr_rounded rnd (arr_pow2 (arr_abs v)))))"

text \<open>
  The third cell with every operation rounded: the subtraction of the two arrays, the
  norm of the difference, the division by the norm (\<^verbatim>\<open>speed_vector /= ...\<close>) and the
  multiplication by the speed (\<^verbatim>\<open>speed_vector *= target_speed\<close>).
\<close>

definition speed_vector_rounded ::
  "(real \<Rightarrow> real) \<Rightarrow> pygeodesy \<Rightarrow> real \<Rightarrow> real \<Rightarrow> real \<Rightarrow> real \<Rightarrow> real \<Rightarrow> ndarray" where
  "speed_vector_rounded rnd lib la lo h dir speed =
     (let v0 = arr_rounded rnd
                 (arr_sub (speed_vector_ecef lib la lo h dir) (ecef_array lib la lo h));
          v1 = arr_rounded rnd (arr_div_scalar v0 (norm_cell_rounded rnd v0))
      in arr_rounded rnd (arr_mul_scalar v1 (Fin speed)))"

text \<open>
  The fourth cell with every operation rounded: the two unit vectors (a subtraction
  and a division by the distance), the componentwise products with the velocity, the
  two sums and their sum, the multiplication by \<open>-1\<close> and the division by the
  wavelength.
\<close>

definition target_to_ioo_vector_rounded ::
  "(real \<Rightarrow> real) \<Rightarrow> ndarray \<Rightarrow> ndarray \<Rightarrow> npfloat \<Rightarrow> ndarray" where
  "target_to_ioo_vector_rounded rnd t i dt =
     arr_rounded rnd (arr_div_scalar (arr_rounded rnd (arr_sub t i)) dt)"

definition target_to_radar_vector_rounded ::
  "(real \<Rightarrow> real) \<Rightarrow> ndarray \<Rightarrow> ndarray \<Rightarrow> npfloat \<Rightarrow> ndarray" where
  "target_to_radar_vector_rounded rnd t r dr =
     arr_rounded rnd (arr_div_scalar (arr_rounded rnd (arr_sub t r)) dr)"

definition fD_numerator_rounded ::
  "(real \<Rightarrow> real) \<Rightarrow> ndarray \<Rightarrow> ndarray \<Rightarrow> ndarray \<Rightarrow> ndarray \<Rightarrow> npfloat \<Rightarrow> npfloat \<Rightarrow> npfloat"
  where
  "fD_numerator_rounded rnd v t i r dt dr =
     rounded rnd (np_mul (Fin (- 1))
       (rounded rnd (np_add
          (np_sum_rounded rnd (arr_rounded rnd (arr_mul v (target_to_ioo_vector_rounded rnd t i dt))))
          (np_sum_rounded rnd
             (arr_rounded rnd (arr_mul v (target_to_radar_vector_rounded rnd t r dr)))))))"

definition fD_rounded ::
  "(real \<Rightarrow> real) \<Rightarrow> ndarray \<Rightarrow> ndarray \<Rightarrow> ndarray \<Rightarrow> ndarray \<Rightarrow> npfloat \<Rightarrow> npfloat \<Rightarrow> npfloat
     \<Rightarrow> npfloat" where
  "fD_rounded rnd v t i r dt dr wl =
     rounded rnd (np_div (fD_numerator_rounded rnd v t i r dt dr) wl)"

section \<open>The specification's velocity estimator and path length\<close>

text \<open>
  The velocity estimator in the specification's words: a probe point one metre along
  the heading, both points converted to Cartesian coordinates, the difference
  normalised to unit length and scaled by the speed. The frame supplies the two
  geodetic functions.
\<close>

record GeodeticFrame =
  toCartesian :: "real \<Rightarrow> real \<Rightarrow> real \<Rightarrow> vec3"
  destinationPoint :: "real \<Rightarrow> real \<Rightarrow> real \<Rightarrow> real \<Rightarrow> real \<times> real"

definition probe_cartesian :: "GeodeticFrame \<Rightarrow> real \<Rightarrow> real \<Rightarrow> real \<Rightarrow> real \<Rightarrow> vec3" where
  "probe_cartesian frame la lo h heading =
     (case destinationPoint frame la lo 1 heading of (pla, plo) \<Rightarrow> toCartesian frame pla plo h)"

definition estimate ::
  "GeodeticFrame \<Rightarrow> real \<Rightarrow> real \<Rightarrow> real \<Rightarrow> real \<Rightarrow> real \<Rightarrow> vec3" where
  "estimate frame la lo h heading speed =
     vscale speed
       (normalize3 (vsub (probe_cartesian frame la lo h heading) (toCartesian frame la lo h)))"

text \<open>
  The frame the notebook works in: Cartesian coordinates from the converter of the
  sphere, destination points from the \<^verbatim>\<open>LatLon\<close> class on its default datum.
\<close>

definition notebook_frame :: "pygeodesy \<Rightarrow> GeodeticFrame" where
  "notebook_frame lib =
     \<lparr>toCartesian = forward lib Sphere, destinationPoint = destination lib WGS84\<rparr>"

text \<open>
  The length of the path illuminator, target, receiver when the target has moved for
  the time \<open>s\<close> with velocity \<open>v\<close>.
\<close>

definition path_length :: "vec3 \<Rightarrow> vec3 \<Rightarrow> vec3 \<Rightarrow> vec3 \<Rightarrow> real \<Rightarrow> real" where
  "path_length v t i r s =
     norm3 (vsub (vadd t (vscale s v)) i) + norm3 (vsub (vadd t (vscale s v)) r)"

section \<open>Bearing\<close>

text \<open>
  The notebook has no code for the bearing: it quotes the formula for \<open>\<theta>\<close> and calls
  \<^verbatim>\<open>calculate_bistatic_target_parameters\<close> of the package pyapril, whose code is not in
  the repository. The definitions of this section follow section 4.5 of the
  specification, over the reals.
\<close>

record GeodeticPoint =
  latitude :: real
  longitude :: real
  elevation :: real

text \<open>
  Modelled from the spec: the two-argument arc tangent of the formula (the library
  function \<^verbatim>\<open>atan2\<close>, with values in \<open>(-\<pi>, \<pi>]\<close>), which the notebook does not define.
\<close>

definition atan2 :: "real \<Rightarrow> real \<Rightarrow> real" where
  "atan2 y x =
     (if 0 < x then arctan (y / x)
      else if x < 0 then (if 0 \<le> y then arctan (y / x) + pi else arctan (y / x) - pi)
      else if 0 < y then pi / 2
      else if y < 0 then - (pi / 2)
      else 0)"

text \<open>Modelled from the spec: degrees at the interface, radians in the formula.\<close>

definition radians :: "real \<Rightarrow> real" where
  "radians d = d * pi / 180"

definition degrees :: "real \<Rightarrow> real" where
  "degrees r = r * 180 / pi"

text \<open>
  Modelled from the spec: the angle \<open>\<theta>\<close> of \<^verbatim>\<open>computeBearing\<close>, whose code is missing,
  \<open>atan2 (cos lat_r * sin lat_t - sin lat_r * cos lat_t * cos \<Delta>lon) (sin \<Delta>lon * cos lat_t)\<close>
  with \<open>\<Delta>lon = lon_t - lon_r\<close>, all angles in radians.
\<close>

definition theta :: "GeodeticPoint \<Rightarrow> GeodeticPoint \<Rightarrow> real" where
  "theta receiver target =
     (let lat_r = radians (latitude receiver);
          lat_t = radians (latitude target);
          dlon = radians (longitude target) - radians (longitude receiver)
      in atan2 (cos lat_r * sin lat_t - sin lat_r * cos lat_t * cos dlon) (sin dlon * cos lat_t))"

text \<open>
  Modelled from the spec: the two normalisations of \<^verbatim>\<open>computeBearing\<close>, adding 360 to a
  negative angle, and the remainder modulo 360 with values in \<open>[0, 360)\<close>.
\<close>

definition normalize360 :: "real \<Rightarrow> real" where
  "normalize360 a = (if a < 0 then a + 360 else a)"

definition mod360 :: "real \<Rightarrow> real" where
  "mod360 a = a - 360 * of_int \<lfloor>a / 360\<rfloor>"

text \<open>
  Modelled from the spec: the function \<^verbatim>\<open>computeBearing\<close> of section 4.5, whose code
  (in pyapril) is missing. The angle \<open>\<theta>\<close> in degrees is normalised to \<open>[0, 360)\<close> by
  adding 360 if negative, then the boresight heading of the receiver is subtracted
  modulo 360; a receiver and a target of equal latitude and longitude fail with
  \<^verbatim>\<open>DegenerateGeometry\<close>.
\<close>

definition computeBearing :: "GeodeticPoint \<Rightarrow> GeodeticPoint \<Rightarrow> real \<Rightarrow> error + real" where
  "computeBearing receiver target receiverBoresight =
     (if latitude receiver = latitude target \<and> longitude receiver = longitude target
      then Inl DegenerateGeometry
      else Inr (mod360 (normalize360 (degrees (theta receiver target)) - receiverBoresight)))"

section \<open>Vectors and arrays\<close>

lemma sum_squares_not_neg: "\<not> (a * a + b * b + c * c < (0::real))"
  by (simp add: not_less add_nonneg_nonneg)

lemma norm3_eq_0: "norm3 (vsub a b) = 0 \<longleftrightarrow> a = b"
  by (cases a; cases b) (simp add: sum_power2_eq_zero_iff add_nonneg_eq_0_iff)

lemma norm3_nonneg: "0 \<le> norm3 a"
  by (cases a) simp

lemma norm3_pos: "a \<noteq> b \<Longrightarrow> 0 < norm3 (vsub a b)"
  using norm3_eq_0 [of a b] norm3_nonneg [of "vsub a b"] by linarith

lemma norm3_self: "norm3 (vsub p p) = 0"
  by (simp add: norm3_eq_0)

lemma vsub_eq_0: "vsub a b = (0, 0, 0) \<longleftrightarrow> a = b"
  by (cases a; cases b) simp

lemma norm3_vscale: "norm3 (vscale k a) = \<bar>k\<bar> * norm3 a"
proof (cases a)
  case (fields a0 a1 a2)
  have "(k * a0)\<^sup>2 + (k * a1)\<^sup>2 + (k * a2)\<^sup>2 = k\<^sup>2 * (a0\<^sup>2 + a1\<^sup>2 + a2\<^sup>2)"
    by (simp add: power_mult_distrib distrib_left)
  then show ?thesis
    by (simp add: fields real_sqrt_mult)
qed

lemma vdiv_vscale: "vdiv a d = vscale (1 / d) a"
  by (cases a) simp

lemma norm3_normalize3:
  assumes "a \<noteq> (0, 0, 0)"
  shows "norm3 (normalize3 a) = 1"
proof -
  have "0 < norm3 (vsub a (0, 0, 0))"
    using assms by (rule norm3_pos)
  moreover have "vsub a (0, 0, 0) = a"
    by (cases a) simp
  ultimately have "0 < norm3 a"
    by simp
  then show ?thesis
    by (simp add: normalize3_def vdiv_vscale norm3_vscale)
qed

lemma dot_vdiv: "dot v (vdiv u d) = dot v u / d"
  by (cases v; cases u) (simp add: add_divide_distrib)

lemma arr_inject: "arr a = arr b \<longleftrightarrow> a = b"
  by (cases a; cases b) simp

lemma arr_sub_arr: "arr_sub (arr a) (arr b) = arr (vsub a b)"
  by (cases a; cases b) (simp add: np_sub_def)

lemma arr_div_scalar_arr: "d \<noteq> 0 \<Longrightarrow> arr_div_scalar (arr a) (Fin d) = arr (vdiv a d)"
  by (cases a) simp

lemma arr_mul_scalar_arr: "arr_mul_scalar (arr a) (Fin k) = arr (vscale k a)"
  by (cases a) (simp add: mult.commute)

lemma dot_arr: "np_sum (arr_mul (arr v) (arr u)) = Fin (dot v u)"
  by (cases v; cases u) simp

lemma norm_cell_arr: "np_sqrt (np_sum (arr_pow2 (arr_abs (arr a)))) = Fin (norm3 a)"
  by (cases a) (simp add: np_pow2_def power2_eq_square sum_squares_not_neg)

lemma distance_arr:
  "np_sqrt (np_sum (arr_pow2 (arr_abs (arr_sub (arr a) (arr b))))) = Fin (norm3 (vsub a b))"
  by (simp add: arr_sub_arr norm_cell_arr)

subsection \<open>Special values\<close>

lemma np_mul_NaN: "np_mul x NaN = NaN"
  by (cases x) simp_all

lemma np_add_NaN: "np_add x NaN = NaN"
  by (cases x) simp_all

lemma np_div_zero_not_finite: "\<not> is_finite (np_div x (Fin 0))"
  by (cases x) (simp_all add: signed_inf_def)

lemma np_mul_not_finite: "\<not> is_finite y \<Longrightarrow> \<not> is_finite (np_mul x y)"
  by (cases x; cases y) (simp_all add: signed_inf_def)

lemma np_add_not_finite_left: "\<not> is_finite x \<Longrightarrow> \<not> is_finite (np_add x y)"
  by (cases x; cases y) simp_all

lemma np_add_not_finite_right: "\<not> is_finite y \<Longrightarrow> \<not> is_finite (np_add x y)"
  by (cases x; cases y) simp_all

lemma np_div_not_finite: "\<not> is_finite x \<Longrightarrow> \<not> is_finite (np_div x y)"
  by (cases x; cases y) (simp_all add: signed_inf_def)

lemma np_div_scale:
  "0 < k \<Longrightarrow> np_div x (Fin (k * wl)) = np_div (np_div x (Fin wl)) (Fin k)"
  by (cases x) (auto simp: signed_inf_def zero_le_mult_iff mult_less_0_iff zero_less_mult_iff)

section \<open>Bistatic range\<close>

lemma L_arr: "L (arr r) (arr i) = Fin (norm3 (vsub r i))"
  by (simp add: L_def distance_arr)

lemma Rt_arr: "Rt (arr t) (arr i) = Fin (norm3 (vsub t i))"
  by (simp add: Rt_def distance_arr)

lemma Rr_arr: "Rr (arr t) (arr r) = Fin (norm3 (vsub t r))"
  by (simp add: Rr_def distance_arr)

text \<open>
  C1. For every triple of Cartesian points (illuminator \<open>i\<close>, receiver \<open>r\<close>, target
  \<open>t\<close>) the second cell computes the baseline \<open>L\<close> as the Euclidean norm of \<open>r - i\<close>,
  the illuminator-to-target distance \<open>Rt\<close> as the norm of \<open>t - i\<close>, the
  target-to-receiver distance \<open>Rr\<close> as the norm of \<open>t - r\<close>, and the bistatic range
  \<open>Rb\<close> as \<open>Rt + Rr - L\<close>.
\<close>

theorem C1_geometry_solver:
  "L (arr r) (arr i) = Fin (norm3 (vsub r i)) \<and>
   Rt (arr t) (arr i) = Fin (norm3 (vsub t i)) \<and>
   Rr (arr t) (arr r) = Fin (norm3 (vsub t r)) \<and>
   Rb (arr i) (arr r) (arr t) =
     Fin (norm3 (vsub t i) + norm3 (vsub t r) - norm3 (vsub r i))"
  by (simp add: Rb_def L_arr Rt_arr Rr_arr np_sub_def)

section \<open>Properties of the rounding\<close>

lemma round_half_even_error: "\<bar>of_int (round_half_even y) - y\<bar> \<le> 1 / 2"
proof -
  have "of_int \<lfloor>y\<rfloor> \<le> y" "y < of_int \<lfloor>y\<rfloor> + 1"
    by linarith+
  then show ?thesis
    by (auto simp: round_half_even_def)
qed

lemma float64I:
  assumes "2 ^ 52 \<le> \<bar>y\<bar>" "\<bar>y\<bar> < 2 ^ 53" "x = y * 2 powr of_int e"
  shows "float64 x = of_int (round_half_even y) * 2 powr of_int e"
proof -
  have x0: "x \<noteq> 0"
    using assms by auto
  have ax: "\<bar>x\<bar> = \<bar>y\<bar> * 2 powr of_int e"
    by (simp add: assms(3) abs_mult)
  have "2 powr of_int (e + 52) \<le> \<bar>x\<bar>"
    using assms(1) by (simp add: ax powr_add powr_realpow mult.commute)
  moreover have "\<bar>x\<bar> < 2 powr (of_int (e + 52) + 1)"
    using assms(2) by (simp add: ax powr_add powr_realpow mult.commute)
  ultimately have "\<lfloor>log 2 \<bar>x\<bar>\<rfloor> = e + 52"
    using x0 by (simp add: floor_log_eq_powr_iff)
  then have "\<lfloor>log 2 \<bar>x\<bar>\<rfloor> - 52 = e"
    by simp
  then show ?thesis
    using x0 by (simp add: float64_def assms(3))
qed

lemma float64_eqI:
  assumes "x = y * 2 powr of_int e" "2 ^ 52 \<le> \<bar>y\<bar>" "\<bar>y\<bar> < 2 ^ 53"
    and "round_half_even y = m" "z = of_int m * 2 powr of_int e"
  shows "float64 x = z"
  using float64I [OF assms(2) assms(3) assms(1)] assms(4) assms(5) by simp

lemma float64_error: "\<bar>float64 x - x\<bar> \<le> \<bar>x\<bar> / 2 ^ 53"
proof (cases "x = 0")
  case True
  then show ?thesis
    by (simp add: float64_def)
next
  case False
  define e where "e = \<lfloor>log 2 \<bar>x\<bar>\<rfloor> - 52"
  define p :: real where "p = 2 powr of_int e"
  have p0: "0 < p"
    by (simp add: p_def)
  have "\<lfloor>log 2 \<bar>x\<bar>\<rfloor> = e + 52"
    by (simp add: e_def)
  then have "2 powr of_int (e + 52) \<le> \<bar>x\<bar>"
    using False by (simp add: floor_log_eq_powr_iff)
  then have low: "p * 2 ^ 52 \<le> \<bar>x\<bar>"
    by (simp add: p_def powr_add powr_realpow)
  have fl: "float64 x = of_int (round_half_even (x / p)) * p"
    using False by (simp add: float64_def e_def p_def)
  have "float64 x - x = (of_int (round_half_even (x / p)) - x / p) * p"
    using p0 by (simp add: fl field_simps)
  then have "\<bar>float64 x - x\<bar> = \<bar>of_int (round_half_even (x / p)) - x / p\<bar> * p"
    using p0 by (simp add: abs_mult)
  also have "\<dots> \<le> 1 / 2 * p"
    using p0 round_half_even_error [of "x / p"] by (intro mult_right_mono) simp_all
  also have "\<dots> = p * 2 ^ 52 / 2 ^ 53"
    by simp
  also have "\<dots> \<le> \<bar>x\<bar> / 2 ^ 53"
    using low by (intro divide_right_mono) simp_all
  finally show ?thesis .
qed

lemma float64_factor: "\<exists>\<delta>. \<bar>\<delta>\<bar> \<le> 1 / 2 ^ 53 \<and> float64 x = x * (1 + \<delta>)"
proof (cases "x = 0")
  case True
  then show ?thesis
    by (intro exI [of _ 0]) (simp add: float64_def)
next
  case False
  have "\<bar>(float64 x - x) / x\<bar> \<le> 1 / 2 ^ 53"
    using float64_error [of x] False by (simp add: abs_divide field_simps)
  moreover have "float64 x = x * (1 + (float64 x - x) / x)"
    using False by (simp add: field_simps)
  ultimately show ?thesis
    by blast
qed

lemma float64_eq_0_iff: "float64 x = 0 \<longleftrightarrow> x = 0"
proof
  assume z: "float64 x = 0"
  obtain d where d: "\<bar>d\<bar> \<le> 1 / 2 ^ 53" "float64 x = x * (1 + d)"
    using float64_factor by blast
  have "\<bar>d\<bar> < 1"
    using d(1) by (rule order_le_less_trans) simp
  then have "1 + d \<noteq> 0"
    by linarith
  then show "x = 0"
    using z d(2) by simp
qed (simp add: float64_def)

lemma rounding_factor_bounds:
  fixes d :: real
  assumes "\<bar>d\<bar> \<le> 1 / 2 ^ 53"
  shows "1 - 1 / 2 ^ 53 \<le> 1 + d" "1 + d \<le> 1 + 1 / 2 ^ 53"
  using assms by (simp_all add: abs_le_iff)

lemma two_roundings_close:
  fixes d1 d2 d3 d4 :: real
  assumes "\<bar>d1\<bar> \<le> 1 / 2 ^ 53" "\<bar>d2\<bar> \<le> 1 / 2 ^ 53" "\<bar>d3\<bar> \<le> 1 / 2 ^ 53" "\<bar>d4\<bar> \<le> 1 / 2 ^ 53"
  shows "\<bar>(1 + d1) / (1 + d2) - (1 + d3) * (1 + d4)\<bar> \<le> (1 + d3) * (1 + d4) / 2 ^ 50"
proof -
  define l :: real where "l = 1 - 1 / 2 ^ 53"
  define h :: real where "h = 1 + 1 / 2 ^ 53"
  have l0: "0 < l" and lh: "l \<le> h"
    by (simp_all add: l_def h_def)
  have b1: "l \<le> 1 + d1" "1 + d1 \<le> h" and b2: "l \<le> 1 + d2" "1 + d2 \<le> h"
    and b3: "l \<le> 1 + d3" "1 + d3 \<le> h" and b4: "l \<le> 1 + d4" "1 + d4 \<le> h"
    using assms rounding_factor_bounds unfolding l_def h_def by blast+
  define q where "q = (1 + d1) / (1 + d2)"
  define p where "p = (1 + d3) * (1 + d4)"
  define hl where "hl = h / l"
  define lh where "lh = l / h"
  define ll where "ll = l * l / 2 ^ 50"
  have q_hi: "q \<le> hl"
    unfolding q_def hl_def using b1 b2 l0 by (intro frac_le) linarith+
  have q_lo: "lh \<le> q"
    unfolding q_def lh_def using b1 b2 l0 by (intro frac_le) linarith+
  have p_lo: "l * l \<le> p"
    unfolding p_def using b3 b4 l0 by (intro mult_mono) linarith+
  have p_hi: "p \<le> h * h"
    unfolding p_def using b3 b4 l0 by (intro mult_mono) linarith+
  have n1: "hl - l * l \<le> ll"
    by (simp add: l_def h_def hl_def ll_def)
  have n2: "h * h - lh \<le> ll"
    by (simp add: l_def h_def lh_def ll_def)
  have "ll \<le> p / 2 ^ 50"
    unfolding ll_def using p_lo by (intro divide_right_mono) simp_all
  then have "\<bar>q - p\<bar> \<le> p / 2 ^ 50"
    using q_hi q_lo p_lo p_hi n1 n2 by linarith
  then show ?thesis
    by (simp only: q_def p_def)
qed

subsection \<open>Bounds on rounded values\<close>

lemma l64_bounds: "0 < l64" "l64 \<le> 1"
  by (simp_all add: l64_def)

lemma h64_bounds: "1 \<le> h64" "0 < h64"
  by (simp_all add: h64_def)

lemma float64_nonneg_bounds:
  assumes "0 \<le> x"
  shows "l64 * x \<le> float64 x" "float64 x \<le> h64 * x"
proof -
  obtain d where d: "\<bar>d\<bar> \<le> 1 / 2 ^ 53" "float64 x = x * (1 + d)"
    using float64_factor by blast
  have "l64 \<le> 1 + d" "1 + d \<le> h64"
    using rounding_factor_bounds [OF d(1)] by (simp_all add: l64_def h64_def)
  then have "x * l64 \<le> x * (1 + d)" "x * (1 + d) \<le> x * h64"
    using assms by (simp_all add: mult_left_mono)
  then show "l64 * x \<le> float64 x" "float64 x \<le> h64 * x"
    by (simp_all add: d(2) mult.commute)
qed

lemma float64_abs_bounds: "l64 * \<bar>x\<bar> \<le> \<bar>float64 x\<bar>" "\<bar>float64 x\<bar> \<le> h64 * \<bar>x\<bar>"
proof -
  obtain d where d: "\<bar>d\<bar> \<le> 1 / 2 ^ 53" "float64 x = x * (1 + d)"
    using float64_factor by blast
  have b: "l64 \<le> 1 + d" "1 + d \<le> h64"
    using rounding_factor_bounds [OF d(1)] by (simp_all add: l64_def h64_def)
  then have p: "0 < 1 + d"
    using l64_bounds(1) by linarith
  have a: "\<bar>float64 x\<bar> = \<bar>x\<bar> * (1 + d)"
    using p by (simp add: d(2) abs_mult)
  have "\<bar>x\<bar> * l64 \<le> \<bar>x\<bar> * (1 + d)" "\<bar>x\<bar> * (1 + d) \<le> \<bar>x\<bar> * h64"
    using b by (simp_all add: mult_left_mono)
  then show "l64 * \<bar>x\<bar> \<le> \<bar>float64 x\<bar>" "\<bar>float64 x\<bar> \<le> h64 * \<bar>x\<bar>"
    by (simp_all add: a mult.commute)
qed

lemma float64_nonneg: "0 \<le> x \<Longrightarrow> 0 \<le> float64 x"
  using float64_nonneg_bounds(1) [of x] l64_bounds(1)
  by (meson mult_nonneg_nonneg less_imp_le order_trans)

lemma float64_sum3_lower:
  assumes "0 \<le> a0" "0 \<le> a1" "0 \<le> a2"
  shows "l64 ^ 3 * (a0 + a1 + a2) \<le> float64 (float64 (float64 a0 + float64 a1) + float64 a2)"
proof -
  note l = l64_bounds
  have q: "l64 * a0 \<le> float64 a0" "l64 * a1 \<le> float64 a1" "l64 * a2 \<le> float64 a2"
    using assms by (simp_all add: float64_nonneg_bounds)
  have q0: "0 \<le> float64 a0 + float64 a1" "0 \<le> float64 a2"
    using assms by (simp_all add: float64_nonneg)
  have "l64 * (l64 * (a0 + a1)) \<le> l64 * (float64 a0 + float64 a1)"
    using q l by (intro mult_left_mono) (simp_all add: distrib_left)
  also have "\<dots> \<le> float64 (float64 a0 + float64 a1)"
    using q0 by (simp add: float64_nonneg_bounds)
  finally have s1: "l64 * (l64 * (a0 + a1)) \<le> float64 (float64 a0 + float64 a1)" .
  have "l64 * (l64 * a2) \<le> 1 * (l64 * a2)"
    using l assms by (intro mult_right_mono) simp_all
  then have q2: "l64 * (l64 * a2) \<le> float64 a2"
    using q(3) by simp
  have s0: "0 \<le> float64 (float64 a0 + float64 a1) + float64 a2"
    using q0 by (simp add: float64_nonneg)
  have "l64 ^ 3 * (a0 + a1 + a2) = l64 * (l64 * (l64 * (a0 + a1)) + l64 * (l64 * a2))"
    by (simp add: power3_eq_cube algebra_simps)
  also have "\<dots> \<le> l64 * (float64 (float64 a0 + float64 a1) + float64 a2)"
    using s1 q2 l by (intro mult_left_mono) simp_all
  also have "\<dots> \<le> float64 (float64 (float64 a0 + float64 a1) + float64 a2)"
    using s0 by (simp add: float64_nonneg_bounds)
  finally show ?thesis .
qed

lemma float64_sum3_upper:
  assumes "0 \<le> a0" "0 \<le> a1" "0 \<le> a2"
  shows "float64 (float64 (float64 a0 + float64 a1) + float64 a2) \<le> h64 ^ 3 * (a0 + a1 + a2)"
proof -
  note h = h64_bounds
  have q: "float64 a0 \<le> h64 * a0" "float64 a1 \<le> h64 * a1" "float64 a2 \<le> h64 * a2"
    using assms by (simp_all add: float64_nonneg_bounds)
  have q0: "0 \<le> float64 a0 + float64 a1" "0 \<le> float64 a2"
    using assms by (simp_all add: float64_nonneg)
  have "float64 (float64 a0 + float64 a1) \<le> h64 * (float64 a0 + float64 a1)"
    using q0 by (simp add: float64_nonneg_bounds)
  also have "\<dots> \<le> h64 * (h64 * (a0 + a1))"
    using q h by (intro mult_left_mono) (simp_all add: distrib_left)
  finally have s1: "float64 (float64 a0 + float64 a1) \<le> h64 * (h64 * (a0 + a1))" .
  have "1 * (h64 * a2) \<le> h64 * (h64 * a2)"
    using h assms by (intro mult_right_mono) simp_all
  then have q2: "float64 a2 \<le> h64 * (h64 * a2)"
    using q(3) by simp
  have s0: "0 \<le> float64 (float64 a0 + float64 a1) + float64 a2"
    using q0 by (simp add: float64_nonneg)
  have "float64 (float64 (float64 a0 + float64 a1) + float64 a2)
          \<le> h64 * (float64 (float64 a0 + float64 a1) + float64 a2)"
    using s0 by (simp add: float64_nonneg_bounds)
  also have "\<dots> \<le> h64 * (h64 * (h64 * (a0 + a1)) + h64 * (h64 * a2))"
    using s1 q2 h by (intro mult_left_mono) simp_all
  also have "\<dots> = h64 ^ 3 * (a0 + a1 + a2)"
    by (simp add: power3_eq_cube algebra_simps)
  finally show ?thesis .
qed

lemma sqrt_power4_mult:
  assumes "0 \<le> c"
  shows "sqrt (c ^ 4 * T) = c\<^sup>2 * sqrt T"
proof -
  have "sqrt (c ^ 4) = c\<^sup>2"
    by (rule real_sqrt_unique) simp_all
  then show ?thesis
    by (simp add: real_sqrt_mult)
qed

lemma float64_norm_bounds:
  assumes "0 \<le> a0" "0 \<le> a1" "0 \<le> a2"
  defines "n \<equiv> float64 (sqrt (float64 (float64 (float64 a0 + float64 a1) + float64 a2)))"
  shows "l64 ^ 3 * sqrt (a0 + a1 + a2) \<le> n" "n \<le> h64 ^ 3 * sqrt (a0 + a1 + a2)"
proof -
  define T where "T = a0 + a1 + a2"
  define s where "s = float64 (float64 (float64 a0 + float64 a1) + float64 a2)"
  have T0: "0 \<le> T"
    using assms(1-3) by (simp add: T_def)
  have lo: "l64 ^ 3 * T \<le> s" and hi: "s \<le> h64 ^ 3 * T"
    unfolding T_def s_def using assms(1-3) by (rule float64_sum3_lower, rule float64_sum3_upper)
  have "l64 ^ 4 * T = l64 * (l64 ^ 3 * T)"
    by (simp add: power4_eq_xxxx power3_eq_cube)
  also have "\<dots> \<le> 1 * (l64 ^ 3 * T)"
    using l64_bounds T0 by (intro mult_right_mono) simp_all
  finally have "l64 ^ 4 * T \<le> s"
    using lo by simp
  then have "sqrt (l64 ^ 4 * T) \<le> sqrt s"
    by simp
  then have r_lo: "l64\<^sup>2 * sqrt T \<le> sqrt s"
    using l64_bounds by (simp add: sqrt_power4_mult)
  have "1 * (h64 ^ 3 * T) \<le> h64 * (h64 ^ 3 * T)"
    using h64_bounds T0 by (intro mult_right_mono) simp_all
  also have "\<dots> = h64 ^ 4 * T"
    by (simp add: power4_eq_xxxx power3_eq_cube)
  finally have "s \<le> h64 ^ 4 * T"
    using hi by simp
  then have "sqrt s \<le> sqrt (h64 ^ 4 * T)"
    by simp
  then have r_hi: "sqrt s \<le> h64\<^sup>2 * sqrt T"
    using h64_bounds by (simp add: sqrt_power4_mult)
  have r0: "0 \<le> sqrt s"
    using r_lo l64_bounds T0 by (meson mult_nonneg_nonneg order_trans real_sqrt_ge_zero zero_le_power2)
  have "l64 ^ 3 * sqrt T = l64 * (l64\<^sup>2 * sqrt T)"
    by (simp add: power3_eq_cube power2_eq_square)
  also have "\<dots> \<le> l64 * sqrt s"
    using r_lo l64_bounds by (intro mult_left_mono) simp_all
  also have "\<dots> \<le> float64 (sqrt s)"
    using r0 by (simp add: float64_nonneg_bounds)
  finally show "l64 ^ 3 * sqrt (a0 + a1 + a2) \<le> n"
    by (simp add: n_def s_def T_def)
  have "float64 (sqrt s) \<le> h64 * sqrt s"
    using r0 by (simp add: float64_nonneg_bounds)
  also have "\<dots> \<le> h64 * (h64\<^sup>2 * sqrt T)"
    using r_hi h64_bounds by (intro mult_left_mono) simp_all
  also have "\<dots> = h64 ^ 3 * sqrt T"
    by (simp add: power3_eq_cube power2_eq_square)
  finally show "n \<le> h64 ^ 3 * sqrt (a0 + a1 + a2)"
    by (simp add: n_def s_def T_def)
qed

lemma norm3_le_scale:
  assumes "0 \<le> c" "\<bar>v0\<bar> \<le> c * \<bar>d0\<bar>" "\<bar>v1\<bar> \<le> c * \<bar>d1\<bar>" "\<bar>v2\<bar> \<le> c * \<bar>d2\<bar>"
  shows "norm3 (v0, v1, v2) \<le> c * norm3 (d0, d1, d2)"
proof -
  have sq: "x\<^sup>2 \<le> c\<^sup>2 * y\<^sup>2" if "\<bar>x\<bar> \<le> c * \<bar>y\<bar>" for x y :: real
  proof -
    have "\<bar>x\<bar>\<^sup>2 \<le> (c * \<bar>y\<bar>)\<^sup>2"
      using that by (intro power_mono) simp_all
    then show ?thesis
      by (simp add: power_mult_distrib)
  qed
  have "v0\<^sup>2 + v1\<^sup>2 + v2\<^sup>2 \<le> c\<^sup>2 * (d0\<^sup>2 + d1\<^sup>2 + d2\<^sup>2)"
    using sq [OF assms(2)] sq [OF assms(3)] sq [OF assms(4)] by (simp add: distrib_left)
  then have "sqrt (v0\<^sup>2 + v1\<^sup>2 + v2\<^sup>2) \<le> sqrt (c\<^sup>2 * (d0\<^sup>2 + d1\<^sup>2 + d2\<^sup>2))"
    by simp
  then show ?thesis
    using assms(1) by (simp add: real_sqrt_mult)
qed

lemma norm3_ge_scale:
  assumes "0 \<le> c" "c * \<bar>d0\<bar> \<le> \<bar>v0\<bar>" "c * \<bar>d1\<bar> \<le> \<bar>v1\<bar>" "c * \<bar>d2\<bar> \<le> \<bar>v2\<bar>"
  shows "c * norm3 (d0, d1, d2) \<le> norm3 (v0, v1, v2)"
proof -
  have sq: "c\<^sup>2 * y\<^sup>2 \<le> x\<^sup>2" if "c * \<bar>y\<bar> \<le> \<bar>x\<bar>" for x y :: real
  proof -
    have "(c * \<bar>y\<bar>)\<^sup>2 \<le> \<bar>x\<bar>\<^sup>2"
      using that assms(1) by (intro power_mono) simp_all
    then show ?thesis
      by (simp add: power_mult_distrib)
  qed
  have "c\<^sup>2 * (d0\<^sup>2 + d1\<^sup>2 + d2\<^sup>2) \<le> v0\<^sup>2 + v1\<^sup>2 + v2\<^sup>2"
    using sq [OF assms(2)] sq [OF assms(3)] sq [OF assms(4)] by (simp add: distrib_left)
  then have "sqrt (c\<^sup>2 * (d0\<^sup>2 + d1\<^sup>2 + d2\<^sup>2)) \<le> sqrt (v0\<^sup>2 + v1\<^sup>2 + v2\<^sup>2)"
    by simp
  then show ?thesis
    using assms(1) by (simp add: real_sqrt_mult)
qed

lemma rounded_component_bounds:
  assumes "0 < n" "0 < s"
  shows "l64\<^sup>2 * s / n * \<bar>d\<bar> \<le> \<bar>float64 (float64 (d / n) * s)\<bar>"
    and "\<bar>float64 (float64 (d / n) * s)\<bar> \<le> h64\<^sup>2 * s / n * \<bar>d\<bar>"
proof -
  have w: "l64 * \<bar>d / n\<bar> \<le> \<bar>float64 (d / n)\<bar>" "\<bar>float64 (d / n)\<bar> \<le> h64 * \<bar>d / n\<bar>"
    by (rule float64_abs_bounds)+
  have dn: "\<bar>d / n\<bar> = \<bar>d\<bar> / n"
    using assms(1) by simp
  have ws: "\<bar>float64 (d / n) * s\<bar> = \<bar>float64 (d / n)\<bar> * s"
    using assms(2) by (simp add: abs_mult)
  have "l64\<^sup>2 * s / n * \<bar>d\<bar> = l64 * ((l64 * (\<bar>d\<bar> / n)) * s)"
    by (simp add: power2_eq_square)
  also have "\<dots> \<le> l64 * (\<bar>float64 (d / n)\<bar> * s)"
    using w(1) l64_bounds assms(2) unfolding dn
    by (intro mult_left_mono mult_right_mono) simp_all
  also have "\<dots> \<le> \<bar>float64 (float64 (d / n) * s)\<bar>"
    using float64_abs_bounds(1) [of "float64 (d / n) * s"] by (simp only: ws)
  finally show "l64\<^sup>2 * s / n * \<bar>d\<bar> \<le> \<bar>float64 (float64 (d / n) * s)\<bar>" .
  have "\<bar>float64 (float64 (d / n) * s)\<bar> \<le> h64 * (\<bar>float64 (d / n)\<bar> * s)"
    using float64_abs_bounds(2) [of "float64 (d / n) * s"] by (simp only: ws)
  also have "\<dots> \<le> h64 * ((h64 * (\<bar>d\<bar> / n)) * s)"
    using w(2) h64_bounds assms(2) unfolding dn
    by (intro mult_left_mono mult_right_mono) simp_all
  also have "\<dots> = h64\<^sup>2 * s / n * \<bar>d\<bar>"
    by (simp add: power2_eq_square)
  finally show "\<bar>float64 (float64 (d / n) * s)\<bar> \<le> h64\<^sup>2 * s / n * \<bar>d\<bar>" .
qed

lemma rounding_constants:
  "h64\<^sup>2 / l64 ^ 3 \<le> 1 + 1 / 2 ^ 50" "1 - 1 / 2 ^ 50 \<le> l64\<^sup>2 / h64 ^ 3"
  by (simp_all add: l64_def h64_def power2_eq_square power3_eq_cube)

subsection \<open>Values of the format\<close>

lemma round_half_even_eqI:
  assumes "\<bar>y - of_int m\<bar> < 1 / 2"
  shows "round_half_even y = m"
proof -
  have f: "of_int \<lfloor>y\<rfloor> \<le> y" "y < of_int \<lfloor>y\<rfloor> + 1"
    by linarith+
  have b: "of_int m - 1 / 2 < y" "y < of_int m + 1 / 2"
    using assms by linarith+
  have "real_of_int \<lfloor>y\<rfloor> < real_of_int m + 1" "real_of_int m - 1 < real_of_int \<lfloor>y\<rfloor> + 1"
    using f b by linarith+
  then have "\<lfloor>y\<rfloor> < m + 1" "m - 1 < \<lfloor>y\<rfloor> + 1"
    by linarith+
  then have c: "\<lfloor>y\<rfloor> = m \<or> \<lfloor>y\<rfloor> = m - 1"
    by linarith
  show ?thesis
    using c
  proof
    assume "\<lfloor>y\<rfloor> = m"
    then show ?thesis
      using b by (simp add: round_half_even_def)
  next
    assume e: "\<lfloor>y\<rfloor> = m - 1"
    then have "1 / 2 < y - of_int \<lfloor>y\<rfloor>"
      using b by simp
    then show ?thesis
      using e by (simp add: round_half_even_def)
  qed
qed

lemma float64_sqrt_eqI:
  assumes "x = sqrt S" "z = of_int m * 2 powr of_int e" "2 ^ 52 < m" "m < 2 ^ 53"
    and "((of_int m - 1 / 2) * 2 powr of_int e)\<^sup>2 < S"
    and "S < ((of_int m + 1 / 2) * 2 powr of_int e)\<^sup>2"
  shows "float64 x = z"
proof -
  define p :: real where "p = 2 powr of_int e"
  have p0: "0 < p"
    by (simp add: p_def)
  have "2 ^ 52 + 1 \<le> m" "m + 1 \<le> 2 ^ 53"
    using assms(3,4) by simp_all
  then have "real_of_int (2 ^ 52 + 1) \<le> real_of_int m" "real_of_int (m + 1) \<le> real_of_int (2 ^ 53)"
    unfolding of_int_le_iff by simp_all
  then have m1: "2 ^ 52 + 1 \<le> real_of_int m" and m2: "real_of_int m + 1 \<le> 2 ^ 53"
    by simp_all
  have lo0: "0 \<le> (of_int m - 1 / 2) * p"
    using m1 p0 by simp
  have "(of_int m - 1 / 2) * p < sqrt S"
    using assms(5) lo0 unfolding p_def [symmetric] by (intro real_less_rsqrt) simp
  moreover have "sqrt S < (of_int m + 1 / 2) * p"
    using assms(6) m1 p0 unfolding p_def [symmetric] by (intro real_less_lsqrt) simp_all
  ultimately have y: "of_int m - 1 / 2 < x / p" "x / p < of_int m + 1 / 2"
    using p0 by (simp_all add: assms(1) field_simps)
  then have r: "round_half_even (x / p) = m"
    by (intro round_half_even_eqI) linarith
  have n1: "4503599627370497 \<le> real_of_int m" and n2: "real_of_int m + 1 \<le> 9007199254740992"
    using m1 m2 by simp_all
  have "4503599627370496 \<le> \<bar>x / p\<bar>" "\<bar>x / p\<bar> < 9007199254740992"
    using y n1 n2 by linarith+
  then have "2 ^ 52 \<le> \<bar>x / p\<bar>" "\<bar>x / p\<bar> < 2 ^ 53"
    by simp_all
  then show ?thesis
    using r p0 by (intro float64_eqI [where y = "x / p" and e = e and m = m])
      (simp_all add: p_def assms(2))
qed

lemma float64_0: "float64 0 = 0"
  by (simp add: float64_def)

lemma float64_1: "float64 (1) = 1"
  by (rule float64_eqI [where y = "2 ^ 52" and e = "- 52" and m = "2 ^ 52"])
    (simp_all add: round_half_even_def powr_minus powr_realpow)

lemma float64_2: "float64 (2) = 2"
  by (rule float64_eqI [where y = "2 ^ 52" and e = "- 51" and m = "2 ^ 52"])
    (simp_all add: round_half_even_def powr_minus powr_realpow)

lemma float64_3: "float64 (3) = 3"
  by (rule float64_eqI [where y = "3 * 2 ^ 51" and e = "- 51" and m = "3 * 2 ^ 51"])
    (simp_all add: round_half_even_def powr_minus powr_realpow)

lemma float64_4: "float64 (4) = 4"
  by (rule float64_eqI [where y = "2 ^ 52" and e = "- 50" and m = "2 ^ 52"])
    (simp_all add: round_half_even_def powr_minus powr_realpow)

lemma float64_m1: "float64 (- 1) = - 1"
  by (rule float64_eqI [where y = "- (2 ^ 52)" and e = "- 52" and m = "- (2 ^ 52)"])
    (simp_all add: round_half_even_def powr_minus powr_realpow)

lemma float64_m3: "float64 (- 3) = - 3"
  by (rule float64_eqI [where y = "- (3 * 2 ^ 51)" and e = "- 51" and m = "- (3 * 2 ^ 51)"])
    (simp_all add: round_half_even_def powr_minus powr_realpow)

lemma float64_m4: "float64 (- 4) = - 4"
  by (rule float64_eqI [where y = "- (2 ^ 52)" and e = "- 50" and m = "- (2 ^ 52)"])
    (simp_all add: round_half_even_def powr_minus powr_realpow)

lemma float64_m10: "float64 (- 10) = - 10"
  by (rule float64_eqI [where y = "- (10 * 2 ^ 49)" and e = "- 49" and m = "- (10 * 2 ^ 49)"])
    (simp_all add: round_half_even_def powr_minus powr_realpow)

lemma float64_tenth: "float64 (1 / 10) = 3602879701896397 / 2 ^ 55"
  by (rule float64_eqI [where y = "2 ^ 56 / 10" and e = "- 56" and m = "7205759403792794"])
    (simp_all add: round_half_even_def powr_minus powr_realpow)

lemma float64_three_tenths: "float64 (3 * (3602879701896397 / 2 ^ 55)) = 5404319552844596 / 2 ^ 54"
  by (rule float64_eqI [where y = "3 * 3602879701896397 / 2" and e = "- 54" and m = "5404319552844596"])
    (simp_all add: round_half_even_def powr_minus powr_realpow)

lemma float64_quotient_1: "float64 (- 3 / (5404319552844596 / 2 ^ 54)) = - (5629499534213119 / 2 ^ 49)"
  by (rule float64_eqI [where y = "- 3 / (5404319552844596 / 2 ^ 54) * 2 ^ 49" and e = "- 49" and m = "- 5629499534213119"])
    (simp_all add: round_half_even_def powr_minus powr_realpow)

lemma float64_quotient_2: "float64 (- 3 / (3602879701896397 / 2 ^ 55)) = - 30"
  by (rule float64_eqI [where y = "- 3 / (3602879701896397 / 2 ^ 55) * 2 ^ 48" and e = "- 48" and m = "- (30 * 2 ^ 48)"])
    (simp_all add: round_half_even_def powr_minus powr_realpow)

lemmas float64_ints = float64_1 float64_2 float64_3 float64_4 float64_m1 float64_m3 float64_m4

lemma f64_5_16: "x = 5 / 16 \<Longrightarrow> float64 x = 5 / 16"
  by (rule float64_eqI [where y = "5629499534213120" and e = "- 54" and m = "5629499534213120"])
    (simp_all add: round_half_even_def powr_minus powr_realpow)

lemma f64_3_4: "x = 3 / 4 \<Longrightarrow> float64 x = 3 / 4"
  by (rule float64_eqI [where y = "6755399441055744" and e = "- 53" and m = "6755399441055744"])
    (simp_all add: round_half_even_def powr_minus powr_realpow)

lemma f64_25_256: "x = 25 / 256 \<Longrightarrow> float64 x = 25 / 256"
  by (rule float64_eqI [where y = "7036874417766400" and e = "- 56" and m = "7036874417766400"])
    (simp_all add: round_half_even_def powr_minus powr_realpow)

lemma f64_9_16: "x = 9 / 16 \<Longrightarrow> float64 x = 9 / 16"
  by (rule float64_eqI [where y = "5066549580791808" and e = "- 53" and m = "5066549580791808"])
    (simp_all add: round_half_even_def powr_minus powr_realpow)

lemma f64_169_256: "x = 169 / 256 \<Longrightarrow> float64 x = 169 / 256"
  by (rule float64_eqI [where y = "5946158883012608" and e = "- 53" and m = "5946158883012608"])
    (simp_all add: round_half_even_def powr_minus powr_realpow)

lemma f64_13_16: "x = 13 / 16 \<Longrightarrow> float64 x = 13 / 16"
  by (rule float64_eqI [where y = "7318349394477056" and e = "- 53" and m = "7318349394477056"])
    (simp_all add: round_half_even_def powr_minus powr_realpow)

lemma f64_5_13: "x = 5 / 13 \<Longrightarrow> float64 x = 6928614811339225 / 18014398509481984"
  by (rule float64_eqI [where y = "90071992547409920 / 13" and e = "- 54" and m = "6928614811339225"])
    (simp_all add: round_half_even_def powr_minus powr_realpow)

lemma f64_12_13: "x = 12 / 13 \<Longrightarrow> float64 x = 4157168886803535 / 4503599627370496"
  by (rule float64_eqI [where y = "108086391056891904 / 13" and e = "- 53" and m = "8314337773607070"])
    (simp_all add: round_half_even_def powr_minus powr_realpow)

lemma f64_vx: "x = 34643074056696125 / 9007199254740992 \<Longrightarrow> float64 x = 8660768514174031 / 2251799813685248"
  by (rule float64_eqI [where y = "34643074056696125 / 4" and e = "- 51" and m = "8660768514174031"])
    (simp_all add: round_half_even_def powr_minus powr_realpow)

lemma f64_vy: "x = 20785844434017675 / 2251799813685248 \<Longrightarrow> float64 x = 5196461108504419 / 562949953421312"
  by (rule float64_eqI [where y = "20785844434017675 / 4" and e = "- 49" and m = "5196461108504419"])
    (simp_all add: round_half_even_def powr_minus powr_realpow)

lemma f64_vx2: "x = 75008911256108252606550154788961 / 5070602400912917605986812821504 \<Longrightarrow> float64 x = 8327662032859645 / 562949953421312"
  by (rule float64_eqI [where y = "75008911256108252606550154788961 / 9007199254740992" and e = "- 49" and m = "8327662032859645"])
    (simp_all add: round_half_even_def powr_minus powr_realpow)

lemma f64_vy2: "x = 27003208052198975095526942527561 / 316912650057057350374175801344 \<Longrightarrow> float64 x = 2997958331829473 / 35184372088832"
  by (rule float64_eqI [where y = "27003208052198975095526942527561 / 4503599627370496" and e = "- 46" and m = "5995916663658946"])
    (simp_all add: round_half_even_def powr_minus powr_realpow)

lemma f64_sum: "x = 56294995342131213 / 562949953421312 \<Longrightarrow> float64 x = 3518437208883201 / 35184372088832"
  by (rule float64_eqI [where y = "56294995342131213 / 8" and e = "- 46" and m = "7036874417766402"])
    (simp_all add: round_half_even_def powr_minus powr_realpow)

lemma f64_sum_fix: "x = 3518437208883201 / 35184372088832 \<Longrightarrow> float64 x = 3518437208883201 / 35184372088832"
  by (rule float64_eqI [where y = "7036874417766402" and e = "- 46" and m = "7036874417766402"])
    (simp_all add: round_half_even_def powr_minus powr_realpow)

lemma sqrt_169_256: "sqrt (169 / 256) = 13 / 16"
  by (rule real_sqrt_unique) (simp_all add: power2_eq_square)

lemma f64_norm: "x = sqrt (3518437208883201 / 35184372088832) \<Longrightarrow> float64 x = 5629499534213121 / 2 ^ 49"
  by (rule float64_sqrt_eqI [where S = "3518437208883201 / 35184372088832"
        and m = 5629499534213121 and e = "- 49"])
    (simp_all add: powr_minus powr_realpow power2_eq_square)

lemmas f64_values = f64_5_16 f64_3_4 f64_25_256 f64_9_16 f64_169_256 f64_13_16 f64_5_13
  f64_12_13 f64_vx f64_vy f64_vx2 f64_vy2 f64_sum f64_sum_fix f64_norm

section \<open>Doppler frequency\<close>

lemma fD_arr:
  assumes "d1 \<noteq> 0" "d2 \<noteq> 0" "wl \<noteq> 0"
  shows "fD (arr v) (arr t) (arr i) (arr r) (Fin d1) (Fin d2) (Fin wl) =
     Fin (- (dot v (vdiv (vsub t i) d1) + dot v (vdiv (vsub t r) d2)) / wl)"
  using assms
  by (simp add: fD_def target_to_ioo_vector_def target_to_radar_vector_def
      arr_sub_arr arr_div_scalar_arr dot_arr)

text \<open>
  C2. For every velocity \<open>v\<close>, points \<open>i\<close>, \<open>r\<close>, \<open>t\<close>, distances \<open>d1 > 0\<close> and
  \<open>d2 > 0\<close> and wavelength \<open>wl > 0\<close>, the Doppler cell returns the negated sum of the
  projections of \<open>v\<close> onto the two line-of-sight vectors \<open>(t - i) / d1\<close> and
  \<open>(t - r) / d2\<close>, divided by the wavelength; each projection is the dot product of
  \<open>v\<close> with the difference, divided by the distance.
\<close>

theorem C2_doppler:
  assumes "0 < d1" "0 < d2" "0 < wl"
  shows "fD (arr v) (arr t) (arr i) (arr r) (Fin d1) (Fin d2) (Fin wl) =
           Fin (- (dot v (vdiv (vsub t i) d1) + dot v (vdiv (vsub t r) d2)) / wl) \<and>
         dot v (vdiv (vsub t i) d1) = dot v (vsub t i) / d1 \<and>
         dot v (vdiv (vsub t r) d2) = dot v (vsub t r) / d2"
  using assms by (simp add: fD_arr dot_vdiv)

text \<open>
  C2 at a target two metres from the illuminator and four from the receiver, moving
  away from the illuminator at 3 m/s, wavelength half a metre: -6 Hz.
\<close>

theorem C2_doppler_witness:
  "(0::real) < 2 \<and> (0::real) < 4 \<and> (0::real) < 1 / 2 \<and>
   fD (arr (3, 0, 0)) (arr (2, 0, 0)) (arr (0, 0, 0)) (arr (2, 4, 0)) (Fin 2) (Fin 4)
     (Fin (1 / 2)) = Fin (- 6)"
  using C2_doppler [of 2 4 "1 / 2" "(3, 0, 0)" "(2, 0, 0)" "(0, 0, 0)" "(2, 4, 0)"]
  by simp

subsection \<open>A zero distance\<close>

lemma projection_zero_distance:
  "\<not> is_finite (np_sum (arr_mul v (arr_div_scalar a (Fin 0))))"
proof -
  obtain v0 v1 v2 where v: "v = (v0, v1, v2)"
    by (cases v)
  obtain a0 a1 a2 where a: "a = (a0, a1, a2)"
    by (cases a)
  have "\<not> is_finite (np_mul v2 (np_div a2 (Fin 0)))"
    by (intro np_mul_not_finite np_div_zero_not_finite)
  then show ?thesis
    by (simp add: v a np_add_not_finite_right)
qed

lemma fD_zero_distance:
  assumes "dt = Fin 0 \<or> dr = Fin 0"
  shows "\<not> is_finite (fD v t i r dt dr wl)"
proof -
  have "\<not> is_finite (np_add (np_sum (arr_mul v (target_to_ioo_vector t i dt)))
                  (np_sum (arr_mul v (target_to_radar_vector t r dr))))"
    using assms
  proof
    assume "dt = Fin 0"
    then show ?thesis
      by (simp add: target_to_ioo_vector_def projection_zero_distance np_add_not_finite_left)
  next
    assume "dr = Fin 0"
    then show ?thesis
      by (simp add: target_to_radar_vector_def projection_zero_distance np_add_not_finite_right)
  qed
  then show ?thesis
    unfolding fD_def by (intro np_div_not_finite np_mul_not_finite)
qed

lemma projection_coincident:
  "np_sum (arr_mul v (arr_div_scalar (arr_sub (arr p) (arr p)) (Fin 0))) = NaN"
  by (cases v; cases p) (simp add: np_sub_def np_mul_NaN np_add_NaN)

lemma fD_coincident:
  assumes "t = i \<or> t = r"
  shows "fD v (arr t) (arr i) (arr r) (Rt (arr t) (arr i)) (Rr (arr t) (arr r)) wl = NaN"
  using assms
proof
  assume "t = i"
  then show ?thesis
    by (simp add: fD_def target_to_ioo_vector_def Rt_arr norm3_self projection_coincident)
next
  assume "t = r"
  then show ?thesis
    by (simp add: fD_def target_to_radar_vector_def Rr_arr norm3_self projection_coincident
        np_add_NaN)
qed

text \<open>
  C4, as the notebook behaves. The claim asks for a \<^verbatim>\<open>DegenerateGeometry\<close> failure when a
  distance is zero. The cell raises nothing: with illuminator, receiver and target at
  one point the distances are \<open>0\<close>, the line-of-sight vectors are \<open>0/0\<close> and the cell
  returns \<^verbatim>\<open>nan\<close>.
\<close>

theorem C4_colocated_counterexample:
  "computeDoppler (arr (3, 0, 0)) (arr (1, 2, 3)) (arr (1, 2, 3)) (arr (1, 2, 3))
     (Rt (arr (1, 2, 3)) (arr (1, 2, 3))) (Rr (arr (1, 2, 3)) (arr (1, 2, 3))) (Fin (1 / 2))
   = Inr NaN \<and>
   computeDoppler (arr (3, 0, 0)) (arr (1, 2, 3)) (arr (1, 2, 3)) (arr (1, 2, 3))
     (Rt (arr (1, 2, 3)) (arr (1, 2, 3))) (Rr (arr (1, 2, 3)) (arr (1, 2, 3))) (Fin (1 / 2))
   \<noteq> Inl DegenerateGeometry"
  by (simp add: computeDoppler_def fD_def target_to_ioo_vector_def target_to_radar_vector_def
      Rt_def Rr_def np_sub_def np_pow2_def)

text \<open>
  C4, amended. For every input with a zero illuminator-to-target or target-to-receiver
  distance the Doppler cell raises no error and returns a value that is not finite
  (an infinity or \<^verbatim>\<open>nan\<close>); when the target coincides with the illuminator or with the
  receiver, the distances being those of the range cell, it returns \<^verbatim>\<open>nan\<close>, in
  particular when all three points coincide.
\<close>

theorem C4_zero_distance:
  "(dt = Fin 0 \<or> dr = Fin 0 \<longrightarrow>
      (\<exists>x. computeDoppler v target ioo radar dt dr wl = Inr x \<and> \<not> is_finite x)) \<and>
   (t = i \<or> t = r \<longrightarrow>
      computeDoppler v (arr t) (arr i) (arr r) (Rt (arr t) (arr i)) (Rr (arr t) (arr r)) wl
        = Inr NaN)"
  by (simp add: computeDoppler_def fD_zero_distance fD_coincident)

text \<open>
  C4, amended, at a zero distance passed with distinct points, and at a target on the
  illuminator.
\<close>

theorem C4_zero_distance_witness:
  "(\<exists>x. computeDoppler (arr (3, 0, 0)) (arr (2, 0, 0)) (arr (0, 0, 0)) (arr (2, 4, 0))
           (Fin 0) (Fin 4) (Fin (1 / 2)) = Inr x \<and> \<not> is_finite x) \<and>
   computeDoppler (arr (3, 0, 0)) (arr (2, 0, 0)) (arr (2, 0, 0)) (arr (2, 4, 0))
     (Rt (arr (2, 0, 0)) (arr (2, 0, 0))) (Rr (arr (2, 0, 0)) (arr (2, 4, 0))) (Fin (1 / 2))
     = Inr NaN"
  using C4_zero_distance [of "Fin 0" "Fin 4" "arr (3, 0, 0)" "arr (2, 0, 0)" "arr (0, 0, 0)"
      "arr (2, 4, 0)" "Fin (1 / 2)" "(2, 0, 0)" "(2, 0, 0)" "(2, 4, 0)"]
  by simp

subsection \<open>Wavelength\<close>

lemma fD_numerator_finite:
  assumes "d1 \<noteq> 0" "d2 \<noteq> 0"
  shows "\<exists>X. fD_numerator_rounded rnd (arr v) (arr t) (arr i) (arr r) (Fin d1) (Fin d2) = Fin X"
  using assms
  by (cases v; cases t; cases i; cases r)
    (simp add: fD_numerator_rounded_def target_to_ioo_vector_rounded_def
      target_to_radar_vector_rounded_def np_sub_def)

lemma rounded_quotients_close:
  assumes "0 < k" "wl \<noteq> 0"
  shows "\<bar>float64 (X / float64 (k * wl)) - float64 (float64 (X / wl) / k)\<bar>
           \<le> \<bar>float64 (float64 (X / wl) / k)\<bar> / 2 ^ 50"
proof -
  define kw where "kw = float64 (k * wl)"
  define xw where "xw = float64 (X / wl)"
  obtain d1 where d1: "\<bar>d1\<bar> \<le> 1 / 2 ^ 53" "float64 (X / kw) = X / kw * (1 + d1)"
    using float64_factor by blast
  obtain d2 where d2: "\<bar>d2\<bar> \<le> 1 / 2 ^ 53" "kw = k * wl * (1 + d2)"
    unfolding kw_def using float64_factor by blast
  obtain d3 where d3: "\<bar>d3\<bar> \<le> 1 / 2 ^ 53" "xw = X / wl * (1 + d3)"
    unfolding xw_def using float64_factor by blast
  obtain d4 where d4: "\<bar>d4\<bar> \<le> 1 / 2 ^ 53" "float64 (xw / k) = xw / k * (1 + d4)"
    using float64_factor by blast
  define Q where "Q = X / (k * wl)"
  have p2: "0 < 1 + d2" "0 < 1 + d3" "0 < 1 + d4"
    using rounding_factor_bounds(1) [OF d2(1)] rounding_factor_bounds(1) [OF d3(1)]
      rounding_factor_bounds(1) [OF d4(1)] by simp_all
  have "X / kw * (1 + d1) = Q * ((1 + d1) / (1 + d2))"
    using assms p2 by (simp add: d2(2) Q_def)
  then have a: "float64 (X / kw) = Q * ((1 + d1) / (1 + d2))"
    using d1(2) by simp
  have "xw / k * (1 + d4) = Q * ((1 + d3) * (1 + d4))"
    using assms by (simp add: d3(2) Q_def mult.commute mult.assoc)
  then have b: "float64 (xw / k) = Q * ((1 + d3) * (1 + d4))"
    using d4(2) by simp
  have "\<bar>Q * ((1 + d1) / (1 + d2)) - Q * ((1 + d3) * (1 + d4))\<bar>
          = \<bar>Q\<bar> * \<bar>(1 + d1) / (1 + d2) - (1 + d3) * (1 + d4)\<bar>"
    by (simp only: abs_mult flip: right_diff_distrib)
  also have "\<dots> \<le> \<bar>Q\<bar> * ((1 + d3) * (1 + d4) / 2 ^ 50)"
    using two_roundings_close [OF d1(1) d2(1) d3(1) d4(1)] by (intro mult_left_mono) simp_all
  also have "\<dots> = \<bar>Q * ((1 + d3) * (1 + d4))\<bar> / 2 ^ 50"
    using p2 by (simp add: abs_mult)
  finally have "\<bar>float64 (X / kw) - float64 (xw / k)\<bar> \<le> \<bar>float64 (xw / k)\<bar> / 2 ^ 50"
    by (simp only: a b)
  then show ?thesis
    by (simp only: kw_def xw_def)
qed

lemma fD_rounded_example:
  "wl \<noteq> 0 \<Longrightarrow>
   fD_rounded float64 (arr (3, 0, 0)) (arr (2, 0, 0)) (arr (0, 0, 0)) (arr (2, 4, 0)) (Fin 2)
     (Fin 4) (Fin wl) = Fin (float64 (- 3 / wl))"
  by (simp add: fD_rounded_def fD_numerator_rounded_def target_to_ioo_vector_rounded_def
      target_to_radar_vector_rounded_def np_sub_def float64_0 float64_ints)

text \<open>
  C10, as the notebook behaves. The claim promises exactly the value divided by \<open>k\<close>.
  Every operation of the cell rounds to \<^verbatim>\<open>float64\<close>. For the target of the C2 example,
  the wavelength \<^verbatim>\<open>0.1\<close> (the value of the format nearest to 1/10) and \<open>k = 3\<close>: the cell
  run with the wavelength \<^verbatim>\<open>3 * 0.1\<close> returns \<open>- 5629499534213119 / 2 ^ 49\<close>, which is
  \<^verbatim>\<open>-9.999999999999998\<close>, while the value it returns with the wavelength \<^verbatim>\<open>0.1\<close>, -30,
  divided by 3 is -10.
\<close>

theorem C10_wavelength_counterexample:
  "fD_rounded float64 (arr (3, 0, 0)) (arr (2, 0, 0)) (arr (0, 0, 0)) (arr (2, 4, 0)) (Fin 2)
     (Fin 4) (Fin (float64 (3 * float64 (1 / 10)))) = Fin (- (5629499534213119 / 2 ^ 49)) \<and>
   rounded float64 (np_div
     (fD_rounded float64 (arr (3, 0, 0)) (arr (2, 0, 0)) (arr (0, 0, 0)) (arr (2, 4, 0)) (Fin 2)
        (Fin 4) (Fin (float64 (1 / 10)))) (Fin 3)) = Fin (- 10) \<and>
   - (5629499534213119 / 2 ^ 49) \<noteq> (- 10 :: real)"
proof -
  let ?w = "3602879701896397 / 2 ^ 55 :: real"
  let ?kw = "5404319552844596 / 2 ^ 54 :: real"
  have kw: "float64 (3 * float64 (1 / 10)) = ?kw"
    by (simp only: float64_tenth float64_three_tenths)
  have "fD_rounded float64 (arr (3, 0, 0)) (arr (2, 0, 0)) (arr (0, 0, 0)) (arr (2, 4, 0))
          (Fin 2) (Fin 4) (Fin ?kw) = Fin (float64 (- 3 / ?kw))"
    by (rule fD_rounded_example) simp
  then have a: "fD_rounded float64 (arr (3, 0, 0)) (arr (2, 0, 0)) (arr (0, 0, 0))
      (arr (2, 4, 0)) (Fin 2) (Fin 4) (Fin (float64 (3 * float64 (1 / 10))))
      = Fin (- (5629499534213119 / 2 ^ 49))"
    by (simp only: kw float64_quotient_1)
  have "fD_rounded float64 (arr (3, 0, 0)) (arr (2, 0, 0)) (arr (0, 0, 0)) (arr (2, 4, 0))
          (Fin 2) (Fin 4) (Fin ?w) = Fin (float64 (- 3 / ?w))"
    by (rule fD_rounded_example) simp
  then have "fD_rounded float64 (arr (3, 0, 0)) (arr (2, 0, 0)) (arr (0, 0, 0)) (arr (2, 4, 0))
          (Fin 2) (Fin 4) (Fin (float64 (1 / 10))) = Fin (- 30)"
    by (simp only: float64_tenth float64_quotient_2)
  then have b: "rounded float64 (np_div
     (fD_rounded float64 (arr (3, 0, 0)) (arr (2, 0, 0)) (arr (0, 0, 0)) (arr (2, 4, 0)) (Fin 2)
        (Fin 4) (Fin (float64 (1 / 10)))) (Fin 3)) = Fin (- 10)"
    by (simp add: float64_m10)
  have c: "- (5629499534213119 / 2 ^ 49) \<noteq> (- 10 :: real)"
    by simp
  show ?thesis
    using a b c by blast
qed

text \<open>
  C10, amended. For every geometry, velocity, pair of distances, wavelength \<open>wl\<close> and
  factor \<open>k > 0\<close>: in exact arithmetic the Doppler cell run with the wavelength
  \<open>k * wl\<close> returns the value it returns with \<open>wl\<close>, divided by \<open>k\<close>; and in
  \<^verbatim>\<open>float64\<close>, for finite inputs with distances and wavelength other than 0, the value
  \<open>a\<close> that the cell returns with the wavelength \<open>k * wl\<close> (as computed) and the
  quotient \<open>b\<close> (as computed) by \<open>k\<close> of the value it returns with \<open>wl\<close> are finite
  and differ by at most \<open>\<bar>b\<bar> / 2 ^ 50\<close>.
\<close>

theorem C10_wavelength:
  assumes "0 < k"
  shows "fD v t i r dt dr (Fin (k * wl)) = np_div (fD v t i r dt dr (Fin wl)) (Fin k) \<and>
         (d1 \<noteq> 0 \<and> d2 \<noteq> 0 \<and> wl \<noteq> 0 \<longrightarrow>
            (\<exists>a b. fD_rounded float64 (arr v') (arr t') (arr i') (arr r') (Fin d1) (Fin d2)
                      (Fin (float64 (k * wl))) = Fin a \<and>
                   rounded float64 (np_div
                      (fD_rounded float64 (arr v') (arr t') (arr i') (arr r') (Fin d1) (Fin d2)
                         (Fin wl)) (Fin k)) = Fin b \<and>
                   \<bar>a - b\<bar> \<le> \<bar>b\<bar> / 2 ^ 50))"
proof (intro conjI impI)
  show "fD v t i r dt dr (Fin (k * wl)) = np_div (fD v t i r dt dr (Fin wl)) (Fin k)"
    using assms by (simp add: fD_def np_div_scale)
next
  assume h: "d1 \<noteq> 0 \<and> d2 \<noteq> 0 \<and> wl \<noteq> 0"
  then obtain X where
    X: "fD_numerator_rounded float64 (arr v') (arr t') (arr i') (arr r') (Fin d1) (Fin d2) = Fin X"
    using fD_numerator_finite by blast
  have kw: "float64 (k * wl) \<noteq> 0"
    using h assms by (simp add: float64_eq_0_iff)
  have a: "fD_rounded float64 (arr v') (arr t') (arr i') (arr r') (Fin d1) (Fin d2)
             (Fin (float64 (k * wl))) = Fin (float64 (X / float64 (k * wl)))"
    using kw by (simp add: fD_rounded_def X)
  have "fD_rounded float64 (arr v') (arr t') (arr i') (arr r') (Fin d1) (Fin d2) (Fin wl)
          = Fin (float64 (X / wl))"
    using h by (simp add: fD_rounded_def X)
  then have b: "rounded float64 (np_div
       (fD_rounded float64 (arr v') (arr t') (arr i') (arr r') (Fin d1) (Fin d2) (Fin wl))
       (Fin k)) = Fin (float64 (float64 (X / wl) / k))"
    using assms by simp
  show "\<exists>a b. fD_rounded float64 (arr v') (arr t') (arr i') (arr r') (Fin d1) (Fin d2)
                      (Fin (float64 (k * wl))) = Fin a \<and>
                   rounded float64 (np_div
                      (fD_rounded float64 (arr v') (arr t') (arr i') (arr r') (Fin d1) (Fin d2)
                         (Fin wl)) (Fin k)) = Fin b \<and>
                   \<bar>a - b\<bar> \<le> \<bar>b\<bar> / 2 ^ 50"
    using a b rounded_quotients_close [of k wl X] assms h by blast
qed

text \<open>
  C10, amended, for the target of the C2 example, the wavelength half a metre and
  \<open>k = 3\<close>.
\<close>

theorem C10_wavelength_witness:
  "(0::real) < 3 \<and>
   fD (arr (3, 0, 0)) (arr (2, 0, 0)) (arr (0, 0, 0)) (arr (2, 4, 0)) (Fin 2) (Fin 4)
     (Fin (3 * (1 / 2))) =
   np_div (fD (arr (3, 0, 0)) (arr (2, 0, 0)) (arr (0, 0, 0)) (arr (2, 4, 0)) (Fin 2) (Fin 4)
     (Fin (1 / 2))) (Fin 3) \<and>
   (\<exists>a b. fD_rounded float64 (arr (3, 0, 0)) (arr (2, 0, 0)) (arr (0, 0, 0)) (arr (2, 4, 0))
             (Fin 2) (Fin 4) (Fin (float64 (3 * (1 / 2)))) = Fin a \<and>
          rounded float64 (np_div
             (fD_rounded float64 (arr (3, 0, 0)) (arr (2, 0, 0)) (arr (0, 0, 0)) (arr (2, 4, 0))
                (Fin 2) (Fin 4) (Fin (1 / 2))) (Fin 3)) = Fin b \<and>
          \<bar>a - b\<bar> \<le> \<bar>b\<bar> / 2 ^ 50)"
proof -
  have "(0::real) < 3" "(2::real) \<noteq> 0 \<and> (4::real) \<noteq> 0 \<and> (1 / 2 :: real) \<noteq> 0"
    by simp_all
  then show ?thesis
    using C10_wavelength [of 3 "arr (3, 0, 0)" "arr (2, 0, 0)" "arr (0, 0, 0)" "arr (2, 4, 0)"
        "Fin 2" "Fin 4" "1 / 2" 2 4 "(3, 0, 0)" "(2, 0, 0)" "(0, 0, 0)" "(2, 4, 0)"]
    by blast
qed

subsection \<open>Sign\<close>

lemma norm3_deriv:
  assumes "t \<noteq> i"
  shows "((\<lambda>s. norm3 (vsub (vadd t (vscale s v)) i)) has_real_derivative
            dot v (vsub t i) / norm3 (vsub t i)) (at 0)"
proof -
  obtain t0 t1 t2 where t: "t = (t0, t1, t2)"
    by (cases t)
  obtain i0 i1 i2 where i: "i = (i0, i1, i2)"
    by (cases i)
  obtain v0 v1 v2 where v: "v = (v0, v1, v2)"
    by (cases v)
  have "0 < norm3 (vsub t i)"
    using assms by (rule norm3_pos)
  then have pos: "0 < (t0 - i0)\<^sup>2 + (t1 - i1)\<^sup>2 + (t2 - i2)\<^sup>2"
    by (simp add: t i)
  have "((\<lambda>s. sqrt ((t0 + s * v0 - i0)\<^sup>2 + (t1 + s * v1 - i1)\<^sup>2 + (t2 + s * v2 - i2)\<^sup>2))
          has_real_derivative
          (v0 * (t0 - i0) + v1 * (t1 - i1) + v2 * (t2 - i2)) /
             sqrt ((t0 - i0)\<^sup>2 + (t1 - i1)\<^sup>2 + (t2 - i2)\<^sup>2)) (at 0)"
    using pos by (auto intro!: derivative_eq_intros simp: field_simps)
  then show ?thesis
    by (simp add: t i v)
qed

lemma path_length_deriv:
  assumes "t \<noteq> i" "t \<noteq> r"
  shows "(path_length v t i r has_real_derivative
            dot v (vsub t i) / norm3 (vsub t i) + dot v (vsub t r) / norm3 (vsub t r)) (at 0)"
  unfolding path_length_def
  by (intro DERIV_add norm3_deriv assms)

text \<open>
  C7. For every scene whose target is neither at the illuminator nor at the receiver,
  every velocity and every wavelength \<open>wl > 0\<close>: the path length has a derivative \<open>D\<close>
  at time 0, it is the only one, the Doppler frequency computed from the distances of
  the range cell is \<open>- D / wl\<close>, and it is positive exactly when \<open>D\<close> is negative, that
  is when the motion shortens the path.
\<close>

theorem C7_sign:
  assumes "t \<noteq> i" "t \<noteq> r" "0 < wl"
  shows "\<exists>f D. fD (arr v) (arr t) (arr i) (arr r) (Rt (arr t) (arr i)) (Rr (arr t) (arr r))
                  (Fin wl) = Fin f \<and>
               (path_length v t i r has_real_derivative D) (at 0) \<and>
               (\<forall>D'. (path_length v t i r has_real_derivative D') (at 0) \<longrightarrow> D' = D) \<and>
               f = - D / wl \<and> (0 < f \<longleftrightarrow> D < 0)"
proof -
  let ?D = "dot v (vsub t i) / norm3 (vsub t i) + dot v (vsub t r) / norm3 (vsub t r)"
  have n: "norm3 (vsub t i) \<noteq> 0" "norm3 (vsub t r) \<noteq> 0"
    using assms by (simp_all add: norm3_eq_0)
  have d: "(path_length v t i r has_real_derivative ?D) (at 0)"
    using assms by (simp add: path_length_deriv)
  have u: "\<forall>D'. (path_length v t i r has_real_derivative D') (at 0) \<longrightarrow> D' = ?D"
    using d by (blast intro: DERIV_unique)
  have f: "fD (arr v) (arr t) (arr i) (arr r) (Rt (arr t) (arr i)) (Rr (arr t) (arr r)) (Fin wl)
            = Fin (- ?D / wl)"
    using n assms(3) by (simp add: Rt_arr Rr_arr fD_arr dot_vdiv)
  have "0 < - d / wl \<longleftrightarrow> d < 0" for d
    using assms(3) by (simp add: divide_less_0_iff)
  then have s: "0 < - ?D / wl \<longleftrightarrow> ?D < 0" .
  show ?thesis
    using d u f s by blast
qed

text \<open>
  C7 for a target that moves away from the illuminator at right angles to the line to
  the receiver: the path grows at 3 m/s and the Doppler frequency is -6 Hz.
\<close>

theorem C7_sign_witness:
  "(2, 0, 0) \<noteq> (0 :: real, 0 :: real, 0 :: real) \<and>
   (2, 0, 0) \<noteq> (2 :: real, 4 :: real, 0 :: real) \<and> (0::real) < 1 / 2 \<and>
   (\<exists>f D. fD (arr (3, 0, 0)) (arr (2, 0, 0)) (arr (0, 0, 0)) (arr (2, 4, 0))
             (Rt (arr (2, 0, 0)) (arr (0, 0, 0))) (Rr (arr (2, 0, 0)) (arr (2, 4, 0)))
             (Fin (1 / 2)) = Fin f \<and>
          (path_length (3, 0, 0) (2, 0, 0) (0, 0, 0) (2, 4, 0) has_real_derivative D) (at 0) \<and>
          f = - D / (1 / 2) \<and> (0 < f \<longleftrightarrow> D < 0))"
proof -
  have "(2, 0, 0) \<noteq> (0 :: real, 0 :: real, 0 :: real)"
    and "(2, 0, 0) \<noteq> (2 :: real, 4 :: real, 0 :: real)" and "(0::real) < 1 / 2"
    by simp_all
  then show ?thesis
    using C7_sign [of "(2, 0, 0)" "(0, 0, 0)" "(2, 4, 0)" "1 / 2" "(3, 0, 0)"]
    by blast
qed

section \<open>Velocity vector\<close>

lemma ecef_array_frame: "ecef_array lib la lo h = arr (toCartesian (notebook_frame lib) la lo h)"
  by (simp add: ecef_array_def notebook_frame_def ecef_converter_def)

lemma speed_vector_ecef_frame:
  "speed_vector_ecef lib la lo h dir = arr (probe_cartesian (notebook_frame lib) la lo h dir)"
  by (simp add: speed_vector_ecef_def speed_vector_latlon_def LatLon_destination_def
      LatLon_new_def ecef_array_def ecef_converter_def probe_cartesian_def notebook_frame_def
      split: prod.split)

lemma speed_vector_estimate:
  assumes "probe_cartesian (notebook_frame lib) la lo h dir
             \<noteq> toCartesian (notebook_frame lib) la lo h"
  shows "speed_vector lib la lo h dir speed = arr (estimate (notebook_frame lib) la lo h dir speed)"
proof -
  let ?p = "probe_cartesian (notebook_frame lib) la lo h dir"
  let ?t = "toCartesian (notebook_frame lib) la lo h"
  have n: "norm3 (vsub ?p ?t) \<noteq> 0"
    using assms by (simp add: norm3_eq_0)
  show ?thesis
    using n
    by (simp add: speed_vector_def Let_def speed_vector_ecef_frame ecef_array_frame arr_sub_arr
        norm_cell_arr arr_div_scalar_arr arr_mul_scalar_arr estimate_def normalize3_def)
qed

lemma speed_vector_coincident:
  assumes "probe_cartesian (notebook_frame lib) la lo h dir
             = toCartesian (notebook_frame lib) la lo h"
  shows "speed_vector lib la lo h dir speed = (NaN, NaN, NaN)"
  using assms
  by (simp add: speed_vector_def Let_def speed_vector_ecef_frame ecef_array_frame arr_sub_arr
      norm_cell_arr norm3_self)
    (cases "toCartesian (notebook_frame lib) la lo h", simp)

lemma estimate_zero_speed: "estimate frame la lo h dir 0 = (0, 0, 0)"
  by (cases "normalize3 (vsub (probe_cartesian frame la lo h dir) (toCartesian frame la lo h))")
    (simp add: estimate_def)

lemma chart_probe: "probe_cartesian (notebook_frame chart) 0 0 0 0 = (0, 1, 0)"
  by (simp add: probe_cartesian_def notebook_frame_def chart_def)

lemma chart_target: "toCartesian (notebook_frame chart) 0 0 0 = (0, 0, 0)"
  by (simp add: notebook_frame_def chart_def)

lemma chart_ecef_array: "ecef_array chart la lo h = arr (lo, la, h)"
  by (simp add: ecef_array_def chart_def)

lemma course_chart_probe:
  "probe_cartesian (notebook_frame (course_chart n e)) la lo h dir = (lo + e, la + n, h)"
  by (simp add: probe_cartesian_def notebook_frame_def course_chart_def)

lemma course_chart_target:
  "toCartesian (notebook_frame (course_chart n e)) la lo h = (lo, la, h)"
  by (simp add: notebook_frame_def course_chart_def)

lemma course_chart_ecef_array: "ecef_array (course_chart n e) la lo h = arr (lo, la, h)"
  by (simp add: ecef_array_def course_chart_def)

lemma course_chart_speed_vector_ecef:
  "speed_vector_ecef (course_chart n e) la lo h dir = arr (lo + e, la + n, h)"
  by (simp add: speed_vector_ecef_def speed_vector_latlon_def LatLon_destination_def
      LatLon_new_def ecef_array_def course_chart_def)

lemma example_vector:
  "speed_vector_rounded float64 (course_chart (3 / 4) (5 / 16)) 0 0 0 0 10 =
     arr (8660768514174031 / 2 ^ 51, 5196461108504419 / 2 ^ 49, 0)"
  by (simp add: speed_vector_rounded_def norm_cell_rounded_def course_chart_ecef_array
      course_chart_speed_vector_ecef np_sub_def np_pow2_def float64_0 sqrt_169_256 f64_values)

lemma example_norm_cell:
  "norm_cell_rounded float64 (arr (8660768514174031 / 2 ^ 51, 5196461108504419 / 2 ^ 49, 0)) =
     Fin (5629499534213121 / 2 ^ 49)"
  by (simp add: norm_cell_rounded_def np_pow2_def float64_0 f64_values)

lemma example_norm3:
  "norm3 (8660768514174031 / 2 ^ 51, 5196461108504419 / 2 ^ 49, 0) \<noteq> 10"
proof
  let ?S = "(8660768514174031 / 2 ^ 51)\<^sup>2 + (5196461108504419 / 2 ^ 49)\<^sup>2 + (0::real)\<^sup>2"
  assume "norm3 (8660768514174031 / 2 ^ 51, 5196461108504419 / 2 ^ 49, 0) = 10"
  then have "sqrt ?S = 10"
    by simp
  then have "(sqrt ?S)\<^sup>2 = 10\<^sup>2"
    by simp
  moreover have "(sqrt ?S)\<^sup>2 = ?S"
    by (rule real_sqrt_pow2) simp
  ultimately have "?S = 100"
    by simp
  then show False
    by (simp add: power2_eq_square)
qed

subsection \<open>The rounded cell\<close>

lemma sub_stage:
  "arr_rounded rnd (arr_sub (arr (p0, p1, p2)) (arr (t0, t1, t2))) =
     (Fin (rnd (p0 - t0)), Fin (rnd (p1 - t1)), Fin (rnd (p2 - t2)))"
  by (simp add: np_sub_def)

lemma norm_stage:
  assumes "0 \<le> rnd (rnd (rnd (d0 * d0) + rnd (d1 * d1)) + rnd (d2 * d2))"
  shows "norm_cell_rounded rnd (Fin d0, Fin d1, Fin d2) =
     Fin (rnd (sqrt (rnd (rnd (rnd (d0 * d0) + rnd (d1 * d1)) + rnd (d2 * d2)))))"
  using assms by (simp add: norm_cell_rounded_def np_pow2_def not_less [symmetric])

lemma div_stage:
  assumes "n \<noteq> 0"
  shows "arr_rounded rnd (arr_div_scalar (Fin d0, Fin d1, Fin d2) (Fin n)) =
     (Fin (rnd (d0 / n)), Fin (rnd (d1 / n)), Fin (rnd (d2 / n)))"
  using assms by simp

lemma mul_stage:
  "arr_rounded rnd (arr_mul_scalar (Fin w0, Fin w1, Fin w2) (Fin s)) =
     (Fin (rnd (w0 * s)), Fin (rnd (w1 * s)), Fin (rnd (w2 * s)))"
  by simp

lemma speed_vector_rounded_norm:
  assumes "0 < speed"
    and "probe_cartesian (notebook_frame lib) la lo h dir
           \<noteq> toCartesian (notebook_frame lib) la lo h"
  shows "\<exists>v. speed_vector_rounded float64 lib la lo h dir speed = arr v \<and>
             \<bar>norm3 v - speed\<bar> \<le> speed / 2 ^ 50"
proof -
  obtain p0 p1 p2 where p: "probe_cartesian (notebook_frame lib) la lo h dir = (p0, p1, p2)"
    by (cases "probe_cartesian (notebook_frame lib) la lo h dir")
  obtain t0 t1 t2 where t: "toCartesian (notebook_frame lib) la lo h = (t0, t1, t2)"
    by (cases "toCartesian (notebook_frame lib) la lo h")
  define d0 where "d0 = float64 (p0 - t0)"
  define d1 where "d1 = float64 (p1 - t1)"
  define d2 where "d2 = float64 (p2 - t2)"
  define T where "T = d0 * d0 + d1 * d1 + d2 * d2"
  define s2 where "s2 = float64 (float64 (float64 (d0 * d0) + float64 (d1 * d1))
                          + float64 (d2 * d2))"
  define n where "n = float64 (sqrt s2)"
  define v0 where "v0 = float64 (float64 (d0 / n) * speed)"
  define v1 where "v1 = float64 (float64 (d1 / n) * speed)"
  define v2 where "v2 = float64 (float64 (d2 / n) * speed)"
  have "p0 \<noteq> t0 \<or> p1 \<noteq> t1 \<or> p2 \<noteq> t2"
    using assms(2) by (simp add: p t)
  then have "d0 \<noteq> 0 \<or> d1 \<noteq> 0 \<or> d2 \<noteq> 0"
    by (simp add: d0_def d1_def d2_def float64_eq_0_iff)
  then have "0 < d0 * d0 \<or> 0 < d1 * d1 \<or> 0 < d2 * d2"
    by (auto simp: zero_less_mult_iff)
  moreover have "0 \<le> d0 * d0" "0 \<le> d1 * d1" "0 \<le> d2 * d2"
    by simp_all
  ultimately have T0: "0 < T"
    unfolding T_def by linarith
  have TN: "sqrt T = norm3 (d0, d1, d2)"
    by (simp add: T_def power2_eq_square)
  have N0: "0 < sqrt T"
    using T0 by simp
  have nb: "l64 ^ 3 * sqrt T \<le> n" "n \<le> h64 ^ 3 * sqrt T"
    unfolding n_def s2_def T_def by (rule float64_norm_bounds; simp)+
  have n0: "0 < n"
    using nb(1) N0 l64_bounds(1)
    by (meson mult_pos_pos order_less_le_trans zero_less_power)
  have s20: "0 \<le> s2"
    unfolding s2_def by (intro float64_nonneg add_nonneg_nonneg) simp_all
  have "speed_vector_rounded float64 lib la lo h dir speed =
      arr_rounded float64 (arr_mul_scalar
        (arr_rounded float64 (arr_div_scalar (Fin d0, Fin d1, Fin d2)
           (norm_cell_rounded float64 (Fin d0, Fin d1, Fin d2)))) (Fin speed))"
    by (simp only: speed_vector_rounded_def Let_def speed_vector_ecef_frame ecef_array_frame
        p t sub_stage d0_def d1_def d2_def)
  also have "norm_cell_rounded float64 (Fin d0, Fin d1, Fin d2) = Fin n"
    unfolding n_def s2_def using s20 [unfolded s2_def] by (rule norm_stage)
  also have "arr_rounded float64 (arr_div_scalar (Fin d0, Fin d1, Fin d2) (Fin n)) =
      (Fin (float64 (d0 / n)), Fin (float64 (d1 / n)), Fin (float64 (d2 / n)))"
    using n0 by (intro div_stage) simp
  also have "arr_rounded float64 (arr_mul_scalar
       (Fin (float64 (d0 / n)), Fin (float64 (d1 / n)), Fin (float64 (d2 / n))) (Fin speed)) =
      arr (v0, v1, v2)"
    by (simp only: mul_stage v0_def v1_def v2_def arr.simps)
  finally have eq: "speed_vector_rounded float64 lib la lo h dir speed = arr (v0, v1, v2)" .
  have c_lo: "0 \<le> l64\<^sup>2 * speed / n" and c_hi: "0 \<le> h64\<^sup>2 * speed / n"
    using assms(1) n0 by simp_all
  have "l64\<^sup>2 * speed / n * norm3 (d0, d1, d2) \<le> norm3 (v0, v1, v2)"
    unfolding v0_def v1_def v2_def
    using c_lo n0 assms(1) by (intro norm3_ge_scale rounded_component_bounds)
  then have lo: "l64\<^sup>2 * speed / n * sqrt T \<le> norm3 (v0, v1, v2)"
    by (simp only: TN)
  have "norm3 (v0, v1, v2) \<le> h64\<^sup>2 * speed / n * norm3 (d0, d1, d2)"
    unfolding v0_def v1_def v2_def
    using c_hi n0 assms(1) by (intro norm3_le_scale rounded_component_bounds)
  then have hi: "norm3 (v0, v1, v2) \<le> h64\<^sup>2 * speed / n * sqrt T"
    by (simp only: TN)
  have l3: "0 < l64 ^ 3" and h3: "0 < h64 ^ 3"
    using l64_bounds(1) h64_bounds(2) by simp_all
  have "sqrt T / n \<le> 1 / l64 ^ 3"
    using nb(1) n0 l3 N0 by (simp add: field_simps)
  then have "h64\<^sup>2 * speed * (sqrt T / n) \<le> h64\<^sup>2 * speed * (1 / l64 ^ 3)"
    using assms(1) by (intro mult_left_mono) simp_all
  then have "norm3 (v0, v1, v2) \<le> speed * (h64\<^sup>2 / l64 ^ 3)"
    using hi by (simp add: mult.commute)
  also have "\<dots> \<le> speed * (1 + 1 / 2 ^ 50)"
    using assms(1) rounding_constants(1) by (intro mult_left_mono) simp_all
  finally have up: "norm3 (v0, v1, v2) \<le> speed + speed / 2 ^ 50"
    by (simp add: distrib_left)
  have "1 / h64 ^ 3 \<le> sqrt T / n"
    using nb(2) n0 h3 N0 by (simp add: field_simps)
  then have "l64\<^sup>2 * speed * (1 / h64 ^ 3) \<le> l64\<^sup>2 * speed * (sqrt T / n)"
    using assms(1) by (intro mult_left_mono) simp_all
  then have "speed * (l64\<^sup>2 / h64 ^ 3) \<le> norm3 (v0, v1, v2)"
    using lo by (simp add: mult.commute)
  moreover have "speed * (1 - 1 / 2 ^ 50) \<le> speed * (l64\<^sup>2 / h64 ^ 3)"
    using assms(1) rounding_constants(2) by (intro mult_left_mono) simp_all
  ultimately have "speed * (1 - 1 / 2 ^ 50) \<le> norm3 (v0, v1, v2)"
    by linarith
  then have down: "speed - speed / 2 ^ 50 \<le> norm3 (v0, v1, v2)"
    by (simp add: right_diff_distrib)
  have "\<bar>norm3 (v0, v1, v2) - speed\<bar> \<le> speed / 2 ^ 50"
    using up down by linarith
  then show ?thesis
    using eq by blast
qed

text \<open>
  C5, as the notebook behaves. The claim promises a norm exactly equal to the speed.
  Every operation of the cell rounds to \<^verbatim>\<open>float64\<close>. On the chart with the course
  (3/4, 5/16), where probe point and target differ (by a vector of length 13/16), and
  for the speed 10, the cell returns the vector
  \<open>(8660768514174031 / 2 ^ 51, 5196461108504419 / 2 ^ 49, 0)\<close>. Its norm is not 10:
  neither the Euclidean norm of the three reals, nor the norm as the cell itself
  computes it in \<^verbatim>\<open>float64\<close>, which is \<open>5629499534213121 / 2 ^ 49\<close>, that is
  \<^verbatim>\<open>10.000000000000002\<close>.
\<close>

theorem C5_velocity_counterexample:
  "(0::real) < 10 \<and>
   probe_cartesian (notebook_frame (course_chart (3 / 4) (5 / 16))) 0 0 0 0
     \<noteq> toCartesian (notebook_frame (course_chart (3 / 4) (5 / 16))) 0 0 0 \<and>
   speed_vector_rounded float64 (course_chart (3 / 4) (5 / 16)) 0 0 0 0 10 =
     arr (8660768514174031 / 2 ^ 51, 5196461108504419 / 2 ^ 49, 0) \<and>
   norm3 (8660768514174031 / 2 ^ 51, 5196461108504419 / 2 ^ 49, 0) \<noteq> 10 \<and>
   norm_cell_rounded float64 (arr (8660768514174031 / 2 ^ 51, 5196461108504419 / 2 ^ 49, 0)) =
     Fin (5629499534213121 / 2 ^ 49) \<and>
   5629499534213121 / 2 ^ 49 \<noteq> (10 :: real)"
proof -
  have "probe_cartesian (notebook_frame (course_chart (3 / 4) (5 / 16))) 0 0 0 0
     \<noteq> toCartesian (notebook_frame (course_chart (3 / 4) (5 / 16))) 0 0 0"
    by (simp add: course_chart_probe course_chart_target)
  moreover have "5629499534213121 / 2 ^ 49 \<noteq> (10 :: real)"
    by simp
  moreover have "(0::real) < 10"
    by simp
  moreover note example_vector example_norm_cell example_norm3
  ultimately show ?thesis
    by (intro conjI)
qed

text \<open>
  C5, amended. For every target position, heading and speed \<open>> 0\<close>, when the Cartesian
  images of the probe point (one metre along the heading, by the destination function)
  and of the target position differ: in exact arithmetic the third cell returns the
  difference of the two images, normalised to unit length and scaled by the speed, and
  the Euclidean norm of that vector is the speed; and in \<^verbatim>\<open>float64\<close> the third cell
  returns a finite vector whose Euclidean norm differs from the speed by at most
  \<open>speed / 2 ^ 50\<close>.
\<close>

theorem C5_velocity:
  assumes "0 < speed"
    and "probe_cartesian (notebook_frame lib) la lo h dir
           \<noteq> toCartesian (notebook_frame lib) la lo h"
  shows "speed_vector lib la lo h dir speed
           = arr (estimate (notebook_frame lib) la lo h dir speed) \<and>
         norm3 (estimate (notebook_frame lib) la lo h dir speed) = speed \<and>
         (\<exists>v. speed_vector_rounded float64 lib la lo h dir speed = arr v \<and>
              \<bar>norm3 v - speed\<bar> \<le> speed / 2 ^ 50)"
  using assms speed_vector_rounded_norm [OF assms]
  by (simp add: speed_vector_estimate estimate_def norm3_vscale norm3_normalize3 vsub_eq_0)

text \<open>C5, amended, on the chart: a target at the origin heading north at 10 m/s.\<close>

theorem C5_velocity_witness:
  "(0::real) < 10 \<and>
   probe_cartesian (notebook_frame chart) 0 0 0 0 \<noteq> toCartesian (notebook_frame chart) 0 0 0 \<and>
   speed_vector chart 0 0 0 0 10 = arr (0, 10, 0) \<and>
   norm3 (estimate (notebook_frame chart) 0 0 0 0 10) = 10 \<and>
   (\<exists>v. speed_vector_rounded float64 chart 0 0 0 0 10 = arr v \<and>
        \<bar>norm3 v - 10\<bar> \<le> 10 / 2 ^ 50)"
proof -
  have h: "(0::real) < 10"
    "probe_cartesian (notebook_frame chart) 0 0 0 0 \<noteq> toCartesian (notebook_frame chart) 0 0 0"
    by (simp_all add: chart_probe chart_target)
  have e: "estimate (notebook_frame chart) 0 0 0 0 10 = (0, 10, 0)"
    by (simp add: chart_probe chart_target estimate_def normalize3_def)
  show ?thesis
    using h C5_velocity [OF h] by (simp only: e) simp
qed

subsection \<open>Speed zero\<close>

lemma fD_zero_velocity:
  assumes "t \<noteq> i" "t \<noteq> r" "wl \<noteq> 0"
  shows "fD (Fin 0, Fin 0, Fin 0) (arr t) (arr i) (arr r) (Rt (arr t) (arr i))
           (Rr (arr t) (arr r)) (Fin wl) = Fin 0"
proof -
  have "norm3 (vsub t i) \<noteq> 0" "norm3 (vsub t r) \<noteq> 0"
    using assms by (simp_all add: norm3_eq_0)
  then show ?thesis
    using assms(3)
    by (cases "vdiv (vsub t i) (norm3 (vsub t i))"; cases "vdiv (vsub t r) (norm3 (vsub t r))")
      (simp add: fD_def target_to_ioo_vector_def target_to_radar_vector_def Rt_arr Rr_arr
        arr_sub_arr arr_div_scalar_arr)
qed

lemma notebook_fD_target_at_ioo:
  assumes "target_lat s = ioo_lat s" "target_lon s = ioo_lon s" "target_ele s = ioo_ele s"
  shows "notebook_fD lib s = Inr NaN"
  using assms
  by (simp add: notebook_fD_def computeDoppler_def target_ecef_def ioo_ecef_def radar_ecef_def
      ecef_array_frame fD_coincident del: arr.simps)

lemma fD_nan_velocity: "fD (NaN, NaN, NaN) t i r dt dr wl = NaN"
  by (cases "target_to_ioo_vector t i dt"; cases "target_to_radar_vector t r dr")
    (simp add: fD_def)

lemma fD_zero_velocity_zero_wavelength:
  assumes "t \<noteq> i" "t \<noteq> r"
  shows "fD (Fin 0, Fin 0, Fin 0) (arr t) (arr i) (arr r) (Rt (arr t) (arr i))
           (Rr (arr t) (arr r)) (Fin 0) = NaN"
proof -
  have "norm3 (vsub t i) \<noteq> 0" "norm3 (vsub t r) \<noteq> 0"
    using assms by (simp_all add: norm3_eq_0)
  then show ?thesis
    by (cases "vdiv (vsub t i) (norm3 (vsub t i))"; cases "vdiv (vsub t r) (norm3 (vsub t r))")
      (simp add: fD_def target_to_ioo_vector_def target_to_radar_vector_def Rt_arr Rr_arr
        arr_sub_arr arr_div_scalar_arr)
qed

text \<open>
  C3, as the notebook behaves. The claim promises, for a target of speed 0 in every
  scene, the zero vector, returned without the normalisation, and the Doppler
  frequency 0. The cell has no branch for the speed 0: it divides by the norm at every
  speed. Where the Cartesian images of the probe point and of the target coincide
  (here on the chart with the course (0, 0), whose destination is the point itself),
  the norm is 0, and the standing target, away from illuminator and receiver and with
  the wavelength 1/2, gets the velocity \<^verbatim>\<open>(nan, nan, nan)\<close>, not the zero vector, and the
  Doppler frequency \<^verbatim>\<open>nan\<close>, not 0. Where the velocity is the zero vector (on the chart
  with the bearing), the Doppler frequency is still \<^verbatim>\<open>nan\<close> for the standing target at
  the illuminator's position, and for the wavelength 0.
\<close>

theorem C3_zero_speed_counterexample:
  "target_speed standing_target = 0 \<and>
   notebook_speed_vector (course_chart 0 0) standing_target = (NaN, NaN, NaN) \<and>
   notebook_speed_vector (course_chart 0 0) standing_target \<noteq> arr (0, 0, 0) \<and>
   notebook_fD (course_chart 0 0) standing_target = Inr NaN \<and>
   notebook_fD (course_chart 0 0) standing_target \<noteq> Inr (Fin 0) \<and>
   target_speed standing_target_at_ioo = 0 \<and>
   notebook_fD chart standing_target_at_ioo = Inr NaN \<and>
   target_speed zero_wavelength = 0 \<and>
   notebook_fD chart zero_wavelength = Inr NaN"
proof -
  have p: "probe_cartesian (notebook_frame (course_chart 0 0)) (target_lat standing_target)
             (target_lon standing_target) (target_ele standing_target) (target_dir standing_target)
           = toCartesian (notebook_frame (course_chart 0 0)) (target_lat standing_target)
             (target_lon standing_target) (target_ele standing_target)"
    by (simp add: course_chart_probe course_chart_target)
  have v: "notebook_speed_vector (course_chart 0 0) standing_target = (NaN, NaN, NaN)"
    unfolding notebook_speed_vector_def using p by (rule speed_vector_coincident)
  have f: "notebook_fD (course_chart 0 0) standing_target = Inr NaN"
    by (simp add: notebook_fD_def computeDoppler_def v fD_nan_velocity)
  have i: "notebook_fD chart standing_target_at_ioo = Inr NaN"
    by (rule notebook_fD_target_at_ioo)
      (simp_all add: standing_target_at_ioo_def standing_target_def)
  have w0: "notebook_speed_vector chart zero_wavelength = arr (0, 0, 0)"
    by (simp add: notebook_speed_vector_def zero_wavelength_def standing_target_def
        speed_vector_estimate chart_probe chart_target estimate_zero_speed)
  have e: "target_ecef chart zero_wavelength = arr (0, 0, 0)"
    "ioo_ecef chart zero_wavelength = arr (3, 0, 0)"
    "radar_ecef chart zero_wavelength = arr (0, 4, 0)" "wavelength zero_wavelength = 0"
    by (simp_all add: target_ecef_def ioo_ecef_def radar_ecef_def chart_ecef_array
        zero_wavelength_def standing_target_def)
  have w: "notebook_fD chart zero_wavelength = Inr NaN"
    unfolding notebook_fD_def computeDoppler_def w0 e
    using fD_zero_velocity_zero_wavelength [of "(0, 0, 0)" "(3, 0, 0)" "(0, 4, 0)"]
    by simp
  show ?thesis
    using v f i w
    by (simp add: standing_target_at_ioo_def standing_target_def zero_wavelength_def)
qed

text \<open>
  C3, amended. For every library, target position, heading and scene with the target
  speed 0: the third cell, which normalises at every speed, returns the zero vector
  when the Cartesian images of the probe point and of the target differ, and
  \<^verbatim>\<open>(nan, nan, nan)\<close> when they coincide; the Doppler frequency is 0 when the two images
  differ, the Cartesian image of the target is neither the illuminator's nor the
  receiver's, and the wavelength is not 0; in every other case it is \<^verbatim>\<open>nan\<close>.
\<close>

theorem C3_zero_speed:
  assumes "target_speed s = 0"
  shows "notebook_speed_vector lib s =
           (if probe_cartesian (notebook_frame lib) (target_lat s) (target_lon s) (target_ele s)
                 (target_dir s)
               = toCartesian (notebook_frame lib) (target_lat s) (target_lon s) (target_ele s)
            then (NaN, NaN, NaN) else arr (0, 0, 0)) \<and>
         notebook_fD lib s =
           (if probe_cartesian (notebook_frame lib) (target_lat s) (target_lon s) (target_ele s)
                 (target_dir s)
               \<noteq> toCartesian (notebook_frame lib) (target_lat s) (target_lon s) (target_ele s) \<and>
               target_ecef lib s \<noteq> ioo_ecef lib s \<and> target_ecef lib s \<noteq> radar_ecef lib s \<and>
               wavelength s \<noteq> 0
            then Inr (Fin 0) else Inr NaN)"
proof (cases "probe_cartesian (notebook_frame lib) (target_lat s) (target_lon s) (target_ele s)
                 (target_dir s)
               = toCartesian (notebook_frame lib) (target_lat s) (target_lon s) (target_ele s)")
  case True
  then have v: "notebook_speed_vector lib s = (NaN, NaN, NaN)"
    by (simp add: notebook_speed_vector_def speed_vector_coincident)
  show ?thesis
    using True by (simp add: v notebook_fD_def computeDoppler_def fD_nan_velocity)
next
  case False
  then have v: "notebook_speed_vector lib s = arr (0, 0, 0)"
    using assms by (simp add: notebook_speed_vector_def speed_vector_estimate estimate_zero_speed)
  let ?t = "toCartesian (notebook_frame lib) (target_lat s) (target_lon s) (target_ele s)"
  let ?i = "toCartesian (notebook_frame lib) (ioo_lat s) (ioo_lon s) (ioo_ele s)"
  let ?r = "toCartesian (notebook_frame lib) (radar_lat s) (radar_lon s) (radar_ele s)"
  have e: "target_ecef lib s = arr ?t" "ioo_ecef lib s = arr ?i" "radar_ecef lib s = arr ?r"
    by (simp_all add: target_ecef_def ioo_ecef_def radar_ecef_def ecef_array_frame)
  have f: "notebook_fD lib s =
      Inr (fD (Fin 0, Fin 0, Fin 0) (arr ?t) (arr ?i) (arr ?r) (Rt (arr ?t) (arr ?i))
             (Rr (arr ?t) (arr ?r)) (Fin (wavelength s)))"
    by (simp add: notebook_fD_def computeDoppler_def v e del: arr.simps) simp
  consider "?t = ?i \<or> ?t = ?r" | "?t \<noteq> ?i" "?t \<noteq> ?r" "wavelength s = 0"
    | "?t \<noteq> ?i" "?t \<noteq> ?r" "wavelength s \<noteq> 0"
    by blast
  then show ?thesis
  proof cases
    case 1
    then have "notebook_fD lib s = Inr NaN"
      by (simp add: f fD_coincident del: arr.simps)
    then show ?thesis
      using 1 False by (auto simp: v e arr_inject)
  next
    case 2
    then have "notebook_fD lib s = Inr NaN"
      by (simp add: f fD_zero_velocity_zero_wavelength del: arr.simps)
    then show ?thesis
      using 2 False by (simp add: v)
  next
    case 3
    then have "notebook_fD lib s = Inr (Fin 0)"
      by (simp add: f fD_zero_velocity del: arr.simps)
    then show ?thesis
      using 3 False by (simp add: v e arr_inject)
  qed
qed

text \<open>C3, amended, on the chart: the standing target away from illuminator and receiver.\<close>

theorem C3_zero_speed_witness:
  "target_speed standing_target = 0 \<and>
   notebook_speed_vector chart standing_target = arr (0, 0, 0) \<and>
   notebook_fD chart standing_target = Inr (Fin 0)"
  using C3_zero_speed [of standing_target chart]
  by (simp add: standing_target_def chart_probe chart_target target_ecef_def ioo_ecef_def
      radar_ecef_def chart_ecef_array)

subsection \<open>Reference surfaces\<close>

text \<open>
  C8, as the notebook behaves. The claim asks that every Cartesian point of a
  calculation comes from one reference surface. The Cartesian conversions all go
  through the converter of the sphere, but the probe point that is converted is a point
  of the \<^verbatim>\<open>LatLon\<close> class of \<^verbatim>\<open>ellipsoidalVincenty\<close> on its default datum WGS84: the
  Cartesian probe point is the sphere's image of a destination computed on the
  ellipsoid.
\<close>

theorem C8_probe_surface:
  "datum (speed_vector_latlon lib la lo dir) = WGS84 \<and>
   converter_datum ecef_converter = Sphere \<and>
   datum (speed_vector_latlon lib la lo dir) \<noteq> converter_datum ecef_converter \<and>
   speed_vector_ecef lib la lo h dir =
     arr (forward lib Sphere (fst (destination lib WGS84 la lo 1 dir))
            (snd (destination lib WGS84 la lo 1 dir)) h) \<and>
   ecef_array lib la lo h = arr (forward lib Sphere la lo h)"
  by (simp add: speed_vector_ecef_def speed_vector_latlon_def LatLon_destination_def
      LatLon_new_def ecef_array_def ecef_converter_def split: prod.split)

section \<open>Bearing in the specification\<close>

lemma atan2_bounds: "- pi < atan2 y x \<and> atan2 y x \<le> pi"
proof -
  have b: "- (pi / 2) < arctan (y / x)" "arctan (y / x) < pi / 2"
    by (rule arctan_lbound, rule arctan_ubound)
  have neg: "x < 0 \<Longrightarrow> 0 \<le> y \<Longrightarrow> arctan (y / x) \<le> 0"
    by (simp add: divide_nonneg_neg arctan_le_zero_iff)
  have pos: "x < 0 \<Longrightarrow> y < 0 \<Longrightarrow> 0 < arctan (y / x)"
    by (simp add: divide_neg_neg zero_less_arctan_iff)
  show ?thesis
    using b neg pos pi_gt_zero by (auto simp: atan2_def)
qed

lemma degrees_bounds: "- pi < a \<Longrightarrow> a \<le> pi \<Longrightarrow> - 180 < degrees a \<and> degrees a \<le> 180"
  using pi_gt_zero by (simp add: degrees_def field_simps)

lemma normalize360_bounds:
  "- 180 < a \<Longrightarrow> a \<le> 180 \<Longrightarrow> 0 \<le> normalize360 a \<and> normalize360 a < 360"
  by (simp add: normalize360_def)

lemma mod360_bounds: "0 \<le> mod360 a \<and> mod360 a < 360"
proof -
  have "of_int \<lfloor>a / 360\<rfloor> \<le> a / 360" "a / 360 < of_int \<lfloor>a / 360\<rfloor> + 1"
    by linarith+
  then show ?thesis
    by (simp add: mod360_def field_simps)
qed

text \<open>
  C6. For every receiver and target that differ in latitude or longitude and every
  boresight heading, \<^verbatim>\<open>computeBearing\<close> returns a value \<open>b\<close> with \<open>0 \<le> b < 360\<close>: with
  \<open>th\<close> the angle \<open>atan2 (cos lat_r * sin lat_t - sin lat_r * cos lat_t * cos dlon)
  (sin dlon * cos lat_t)\<close> in degrees, where \<open>dlon = lon_t - lon_r\<close>, the value \<open>th\<close>
  plus 360 if negative lies in \<open>[0, 360)\<close>, and \<open>b\<close> is that value minus the boresight,
  modulo 360.
\<close>

theorem C6_bearing:
  assumes "latitude receiver \<noteq> latitude target \<or> longitude receiver \<noteq> longitude target"
  shows "\<exists>b th. computeBearing receiver target boresight = Inr b \<and> 0 \<le> b \<and> b < 360 \<and>
           th = degrees (atan2
                  (cos (radians (latitude receiver)) * sin (radians (latitude target)) -
                   sin (radians (latitude receiver)) * cos (radians (latitude target)) *
                     cos (radians (longitude target) - radians (longitude receiver)))
                  (sin (radians (longitude target) - radians (longitude receiver)) *
                     cos (radians (latitude target)))) \<and>
           0 \<le> normalize360 th \<and> normalize360 th < 360 \<and>
           normalize360 th = (if th < 0 then th + 360 else th) \<and>
           b = mod360 (normalize360 th - boresight)"
proof -
  let ?th = "degrees (theta receiver target)"
  have "- 180 < ?th \<and> ?th \<le> 180"
    using atan2_bounds by (simp add: theta_def Let_def degrees_bounds)
  then have n: "0 \<le> normalize360 ?th \<and> normalize360 ?th < 360"
    by (simp add: normalize360_bounds)
  have c: "computeBearing receiver target boresight
             = Inr (mod360 (normalize360 ?th - boresight))"
    using assms by (auto simp: computeBearing_def)
  show ?thesis
    using n c mod360_bounds [of "normalize360 ?th - boresight"]
    by (simp add: theta_def Let_def normalize360_def)
qed

text \<open>
  C6 for a receiver on the equator, a target at the pole on the same meridian and a
  boresight of 30 degrees: \<open>\<theta>\<close> is 90 degrees and the bearing 60.
\<close>

theorem C6_bearing_witness:
  "latitude \<lparr>latitude = 0, longitude = 0, elevation = 0\<rparr>
     \<noteq> latitude \<lparr>latitude = 90, longitude = 0, elevation = 0\<rparr> \<and>
   computeBearing \<lparr>latitude = 0, longitude = 0, elevation = 0\<rparr>
     \<lparr>latitude = 90, longitude = 0, elevation = 0\<rparr> 30 = Inr 60"
  using C6_bearing [of "\<lparr>latitude = 0, longitude = 0, elevation = 0\<rparr>"
      "\<lparr>latitude = 90, longitude = 0, elevation = 0\<rparr>" 30]
  by (simp add: computeBearing_def theta_def radians_def degrees_def atan2_def
      normalize360_def mod360_def)

subsection \<open>The notebook's example\<close>

lemma atan2_first_quadrant:
  assumes "0 < x" "0 < y"
  shows "0 < degrees (atan2 y x) \<and> degrees (atan2 y x) < 90"
proof -
  have "0 < arctan (y / x)"
    using assms by (simp add: zero_less_arctan_iff)
  moreover have "arctan (y / x) < pi / 2"
    by (rule arctan_ubound)
  ultimately show ?thesis
    using assms pi_gt_zero by (simp add: atan2_def degrees_def field_simps)
qed

lemma mod360_small:
  assumes "0 \<le> a" "a < 360"
  shows "mod360 a = a"
proof -
  have "\<lfloor>a / 360\<rfloor> = 0"
    using assms by (simp add: floor_eq_iff)
  then show ?thesis
    by (simp add: mod360_def)
qed

lemma theta_first_quadrant:
  assumes "0 < a" "a < b" "b < pi / 2" "0 < d" "d < pi / 2"
  shows "0 < sin d * cos b \<and> 0 < cos a * sin b - sin a * cos b * cos d"
proof -
  have sd: "0 < sin d"
    using assms pi_gt_zero by (intro sin_gt_zero) linarith+
  have cb: "0 < cos b"
    using assms by (intro cos_gt_zero_pi) linarith+
  have sa: "0 < sin a"
    using assms pi_gt_zero by (intro sin_gt_zero) linarith+
  have "0 < sin (b - a)"
    using assms pi_gt_zero by (intro sin_gt_zero) linarith+
  then have diff: "sin a * cos b < cos a * sin b"
    by (simp add: sin_diff mult.commute)
  have "sin a * cos b * cos d \<le> sin a * cos b * 1"
    using sa cb by (intro mult_left_mono) (simp_all add: less_imp_le)
  then have "sin a * cos b * cos d < cos a * sin b"
    using diff by simp
  then show ?thesis
    using sd cb by simp
qed

text \<open>
  The receiver and the target of the notebook's example, boresight 0: the target lies
  north-east of the receiver and the bearing of the specification's formula is an angle
  strictly between 0 and 90 degrees. (The notebook prints 155.9 degrees for this
  example, the result of the function of pyapril.)
\<close>

lemma example_bearing_first_quadrant:
  "\<exists>b. computeBearing \<lparr>latitude = 47.501807, longitude = 19.034006, elevation = 169\<rparr>
          \<lparr>latitude = 47.515136, longitude = 19.078176, elevation = 108\<rparr> 0 = Inr b \<and>
        0 < b \<and> b < 90"
proof -
  let ?a = "radians 47.501807" and ?b = "radians 47.515136"
  let ?d = "radians 19.078176 - radians 19.034006"
  have r: "0 < ?a" "?a < ?b" "?b < pi / 2" "0 < ?d" "?d < pi / 2"
    using pi_gt_zero by (simp_all add: radians_def)
  let ?th = "degrees (atan2 (cos ?a * sin ?b - sin ?a * cos ?b * cos ?d) (sin ?d * cos ?b))"
  have q: "0 < ?th \<and> ?th < 90"
    using theta_first_quadrant [OF r] by (intro atan2_first_quadrant) simp_all
  then have "mod360 (normalize360 ?th - 0) = ?th"
    by (simp add: normalize360_def mod360_small)
  then show ?thesis
    using q by (simp add: computeBearing_def theta_def Let_def)
qed

end
